theory Spec2Isabelle
  imports Main "HOL-Library.Sublist"
begin

section \<open>The project validator (validate_project.py)\<close>

text \<open>
  The script runs five checkers over the working directory, prints one line per finding
  and exits with status 0 or 1. The embedding keeps the script's structure: one HOL
  function per Python function, one recursive function per \<open>for\<close> loop, exceptions as the
  left summand of a sum type, and the outside world (the directory tree and the console) as
  a record that every function takes and returns.
\<close>

subsection \<open>Exceptions and parsed JSON\<close>

text \<open>
  The exception classes that the operations used by the script can raise. All of them are
  subclasses of Python's \<open>Exception\<close>, so a handler \<open>except Exception\<close> catches each one;
  only \<open>JSONDecodeError\<close> is matched by \<open>except json.JSONDecodeError\<close>.
  \<open>UnicodeEncodeError\<close> is what \<open>print\<close> raises on a console that cannot encode a line.
\<close>

datatype exn =
    FileNotFoundError
  | IsADirectoryError
  | PermissionError
  | UnicodeDecodeError
  | UnicodeEncodeError
  | JSONDecodeError
  | RecursionError
  | TypeError
  | KeyError

text \<open>
  What \<open>json.load\<close> builds: \<open>None\<close>, a bool, an int, a float, a str, a list or a dict.
  The script never looks at a number, so the payload of \<open>JFloat\<close> (mantissa and exponent)
  only tells floats apart. A dict is the list of its items in insertion order; Python
  keeps the keys of a dict distinct.
\<close>

datatype json =
    JNull
  | JBool bool
  | JInt int
  | JFloat int int
  | JStr string
  | JArr "json list"
  | JObj "(string \<times> json) list"

text \<open>The substring test of Python's \<open>in\<close> on two strings.\<close>

definition str_in :: "string \<Rightarrow> string \<Rightarrow> bool" where
  "str_in sub s = sublist sub s"

text \<open>
  \<open>key in content\<close> for a string key: key membership on a dict, element membership on a
  list (only a str element can be equal to a str), substring on a str, and TypeError on
  \<open>None\<close>, a bool or a number, which are not iterable.
\<close>

fun py_in :: "string \<Rightarrow> json \<Rightarrow> exn + bool" where
  "py_in k (JObj kvs) = Inr (k \<in> set (map fst kvs))"
| "py_in k (JArr xs) = Inr (JStr k \<in> set xs)"
| "py_in k (JStr s) = Inr (str_in k s)"
| "py_in k JNull = Inl TypeError"
| "py_in k (JBool b) = Inl TypeError"
| "py_in k (JInt i) = Inl TypeError"
| "py_in k (JFloat m e) = Inl TypeError"

text \<open>
  \<open>content[key]\<close> for a string key: the value on a dict (KeyError when absent), TypeError
  on a list or a str (their indices must be integers) and on every other value.
\<close>

fun py_getitem :: "json \<Rightarrow> string \<Rightarrow> exn + json" where
  "py_getitem (JObj kvs) k = (case map_of kvs k of None \<Rightarrow> Inl KeyError | Some v \<Rightarrow> Inr v)"
| "py_getitem (JArr xs) k = Inl TypeError"
| "py_getitem (JStr s) k = Inl TypeError"
| "py_getitem JNull k = Inl TypeError"
| "py_getitem (JBool b) k = Inl TypeError"
| "py_getitem (JInt i) k = Inl TypeError"
| "py_getitem (JFloat m e) k = Inl TypeError"

text \<open>\<open>len(v)\<close>: defined on a list, a dict and a str, TypeError on every other value.\<close>

fun py_len :: "json \<Rightarrow> exn + nat" where
  "py_len (JArr xs) = Inr (length xs)"
| "py_len (JObj kvs) = Inr (length (remdups (map fst kvs)))"
| "py_len (JStr s) = Inr (length s)"
| "py_len JNull = Inl TypeError"
| "py_len (JBool b) = Inl TypeError"
| "py_len (JInt i) = Inl TypeError"
| "py_len (JFloat m e) = Inl TypeError"

text \<open>
  \<open>str.lower()\<close> on a text whose characters are code points below 256: the letters A to
  Z and the capital letters of Latin-1 (192 to 222 except the multiplication sign 215) move
  up by 32, every other character stays.
\<close>

definition lower_char :: "char \<Rightarrow> char" where
  "lower_char c =
     (let n = (of_char c :: nat)
      in if (65 \<le> n \<and> n \<le> 90) \<or> (192 \<le> n \<and> n \<le> 222 \<and> n \<noteq> 215)
         then char_of (n + 32) else c)"

definition lower :: "string \<Rightarrow> string" where
  "lower s = map lower_char s"

subsection \<open>The outside world\<close>

text \<open>
  A path of the working directory resolves to nothing, to a directory, to a regular file or
  to something else (a device, a socket). A file carries what
  \<open>with open(p, 'r') as f: f.read()\<close> gives for it: its text, or the exception of a
  failed open or a failed decoding. In this first model every read returns and every
  \<open>print\<close> succeeds; the second model below adds a read that never returns (a pipe
  without a writer) and a console that refuses a line.
\<close>

datatype node = Dir | Reg "exn + string" | Other "exn + string"

text \<open>One constructor per \<open>print\<close> call of the script; the arguments are the values
  interpolated into the line.\<close>

datatype msg =
    HdrStructure | DirOk string | DirMissing string | FileOk string | FileMissing string
  | HdrNotebooks | NbMissingCells string | NbValid string nat
  | NbInvalidJSON string exn | NbError string exn
  | HdrPipeline | LayerDocOk string | LayerDocMissing string | ModelsDocOk | ModelsDocMissing
  | HdrRequirements | PkgOk string | PkgMissing string | ReqReadError exn
  | HdrGitignore | PatOk string | PatWarn string | GitignoreReadError exn
  | Banner | Rule | RuleNL | AllPassed | Implemented | Ready | SomeFailed | PleaseFix

record world =
  files :: "string \<Rightarrow> node option"
  stdout :: "msg list"

definition py_print :: "msg \<Rightarrow> world \<Rightarrow> world" where
  "py_print m w = w\<lparr>stdout := stdout w @ [m]\<rparr>"

definition os_path_isdir :: "world \<Rightarrow> string \<Rightarrow> bool" where
  "os_path_isdir w p = (case files w p of Some Dir \<Rightarrow> True | _ \<Rightarrow> False)"

definition os_path_isfile :: "world \<Rightarrow> string \<Rightarrow> bool" where
  "os_path_isfile w p = (case files w p of Some (Reg r) \<Rightarrow> True | _ \<Rightarrow> False)"

text \<open>\<open>with open(p, 'r') as f: f.read()\<close>: mode \<open>'r'\<close> creates nothing and changes
  nothing, so only a result comes back.\<close>

definition read_text :: "world \<Rightarrow> string \<Rightarrow> exn + string" where
  "read_text w p =
     (case files w p of
        None \<Rightarrow> Inl FileNotFoundError
      | Some Dir \<Rightarrow> Inl IsADirectoryError
      | Some (Reg r) \<Rightarrow> r
      | Some (Other r) \<Rightarrow> r)"

text \<open>
  \<open>with open(p, 'r') as f: json.load(f)\<close>. The JSON decoder is Python's library, not code
  of this repository: it is the parameter \<open>loads\<close>, which maps a text to the parsed value
  or to the exception it raises (JSONDecodeError for a malformed text).
\<close>

definition json_load :: "(string \<Rightarrow> exn + json) \<Rightarrow> world \<Rightarrow> string \<Rightarrow> exn + json" where
  "json_load loads w p = (case read_text w p of Inl e \<Rightarrow> Inl e | Inr t \<Rightarrow> loads t)"

subsection \<open>validate_project_structure\<close>

definition required_dirs :: "string list" where
  "required_dirs =
     [''data'', ''data/raw'', ''data/stage'', ''data/processed'', ''notebooks'', ''models'']"

definition required_files :: "string list" where
  "required_files =
     [''README.md'', ''requirements.txt'', ''.gitignore'',
      ''notebooks/01_data_ingestion.ipynb'',
      ''notebooks/02_data_cleaning.ipynb'',
      ''notebooks/03_feature_engineering.ipynb'',
      ''notebooks/04_model_training.ipynb'']"

text \<open>
  A loop that may \<open>return\<close> from the enclosing function yields \<open>Some v\<close> when it returned
  \<open>v\<close> and \<open>None\<close> when it ran to its end.
\<close>

fun check_dirs :: "string list \<Rightarrow> world \<Rightarrow> bool option \<times> world" where
  "check_dirs [] w = (None, w)"
| "check_dirs (dir_path # rest) w =
     (if os_path_isdir w dir_path then check_dirs rest (py_print (DirOk dir_path) w)
      else (Some False, py_print (DirMissing dir_path) w))"

fun check_files :: "string list \<Rightarrow> world \<Rightarrow> bool option \<times> world" where
  "check_files [] w = (None, w)"
| "check_files (file_path # rest) w =
     (if os_path_isfile w file_path then check_files rest (py_print (FileOk file_path) w)
      else (Some False, py_print (FileMissing file_path) w))"

definition validate_project_structure :: "world \<Rightarrow> (exn + bool) \<times> world" where
  "validate_project_structure w =
     (let w1 = py_print HdrStructure w in
      case check_dirs required_dirs w1 of
        (Some b, w2) \<Rightarrow> (Inr b, w2)
      | (None, w2) \<Rightarrow>
          (case check_files required_files w2 of
             (Some b, w3) \<Rightarrow> (Inr b, w3)
           | (None, w3) \<Rightarrow> (Inr True, w3)))"

subsection \<open>validate_notebooks\<close>

definition notebooks :: "string list" where
  "notebooks =
     [''notebooks/01_data_ingestion.ipynb'',
      ''notebooks/02_data_cleaning.ipynb'',
      ''notebooks/03_feature_engineering.ipynb'',
      ''notebooks/04_model_training.ipynb'']"

text \<open>The body of the \<open>try\<close> block for one notebook: \<open>Inl e\<close> when it raises \<open>e\<close>,
  \<open>Inr (Some False)\<close> when it returns False, \<open>Inr None\<close> when it reaches its end.\<close>

definition notebook_try :: "(string \<Rightarrow> exn + json) \<Rightarrow> string \<Rightarrow> world \<Rightarrow> (exn + bool option) \<times> world" where
  "notebook_try loads notebook w =
     (case json_load loads w notebook of
        Inl e \<Rightarrow> (Inl e, w)
      | Inr content \<Rightarrow>
          (case py_in ''cells'' content of
             Inl e \<Rightarrow> (Inl e, w)
           | Inr has_cells \<Rightarrow>
               if \<not> has_cells then (Inr (Some False), py_print (NbMissingCells notebook) w)
               else
                 (case py_getitem content ''cells'' of
                    Inl e \<Rightarrow> (Inl e, w)
                  | Inr cells \<Rightarrow>
                      (case py_len cells of
                         Inl e \<Rightarrow> (Inl e, w)
                       | Inr cell_count \<Rightarrow>
                           (Inr None, py_print (NbValid notebook cell_count) w)))))"

text \<open>The \<open>try\<close> statement with its two handlers, tried in order.\<close>

definition notebook_step :: "(string \<Rightarrow> exn + json) \<Rightarrow> string \<Rightarrow> world \<Rightarrow> bool option \<times> world" where
  "notebook_step loads notebook w =
     (case notebook_try loads notebook w of
        (Inl e, w1) \<Rightarrow>
          if e = JSONDecodeError then (Some False, py_print (NbInvalidJSON notebook e) w1)
          else (Some False, py_print (NbError notebook e) w1)
      | (Inr r, w1) \<Rightarrow> (r, w1))"

fun check_notebooks :: "(string \<Rightarrow> exn + json) \<Rightarrow> string list \<Rightarrow> world \<Rightarrow> bool option \<times> world" where
  "check_notebooks loads [] w = (None, w)"
| "check_notebooks loads (notebook # rest) w =
     (case notebook_step loads notebook w of
        (Some b, w1) \<Rightarrow> (Some b, w1)
      | (None, w1) \<Rightarrow> check_notebooks loads rest w1)"

definition validate_notebooks :: "(string \<Rightarrow> exn + json) \<Rightarrow> world \<Rightarrow> (exn + bool) \<times> world" where
  "validate_notebooks loads w =
     (case check_notebooks loads notebooks (py_print HdrNotebooks w) of
        (Some b, w1) \<Rightarrow> (Inr b, w1)
      | (None, w1) \<Rightarrow> (Inr True, w1))"

subsection \<open>validate_data_pipeline\<close>

text \<open>The dict \<open>expected_data_flow\<close> in insertion order, which is the order in which
  \<open>items()\<close> yields it. The file names are never tested.\<close>

definition expected_data_flow :: "(string \<times> string list) list" where
  "expected_data_flow =
     [(''raw'', [''customers.csv'', ''products.csv'', ''transactions.csv'']),
      (''stage'', [''cleaned_customers.csv'', ''cleaned_products.csv'',
                   ''cleaned_transactions.csv'', ''data_quality_summary.json'']),
      (''processed'', [''customer_features.csv'', ''training_data.csv'', ''X_features.csv'',
                       ''y_target.csv'', ''label_encoders.pkl'',
                       ''feature_engineering_summary.json''])]"

fun check_layers :: "(string \<times> string list) list \<Rightarrow> world \<Rightarrow> world" where
  "check_layers [] w = w"
| "check_layers ((layer, expected_files) # rest) w =
     (let readme_file = ''data/'' @ layer @ ''/README.md'' in
      if os_path_isfile w readme_file then check_layers rest (py_print (LayerDocOk layer) w)
      else check_layers rest (py_print (LayerDocMissing layer) w))"

definition validate_data_pipeline :: "world \<Rightarrow> (exn + bool) \<times> world" where
  "validate_data_pipeline w =
     (let w1 = check_layers expected_data_flow (py_print HdrPipeline w);
          models_readme = ''models/README.md'';
          w2 = (if os_path_isfile w1 models_readme then py_print ModelsDocOk w1
                else py_print ModelsDocMissing w1)
      in (Inr True, w2))"

subsection \<open>validate_requirements\<close>

definition essential_packages :: "string list" where
  "essential_packages =
     [''pandas'', ''numpy'', ''tensorflow'', ''scikit-learn'',
      ''matplotlib'', ''seaborn'', ''faker'', ''jupyter'']"

fun check_packages :: "string \<Rightarrow> string list \<Rightarrow> world \<Rightarrow> bool option \<times> world" where
  "check_packages requirements [] w = (None, w)"
| "check_packages requirements (package # rest) w =
     (if str_in package (lower requirements)
      then check_packages requirements rest (py_print (PkgOk package) w)
      else (Some False, py_print (PkgMissing package) w))"

definition requirements_try :: "world \<Rightarrow> (exn + bool) \<times> world" where
  "requirements_try w =
     (case read_text w ''requirements.txt'' of
        Inl e \<Rightarrow> (Inl e, w)
      | Inr requirements \<Rightarrow>
          (case check_packages requirements essential_packages w of
             (Some b, w1) \<Rightarrow> (Inr b, w1)
           | (None, w1) \<Rightarrow> (Inr True, w1)))"

definition validate_requirements :: "world \<Rightarrow> (exn + bool) \<times> world" where
  "validate_requirements w =
     (case requirements_try (py_print HdrRequirements w) of
        (Inl e, w1) \<Rightarrow> (Inr False, py_print (ReqReadError e) w1)
      | (Inr b, w1) \<Rightarrow> (Inr b, w1))"

subsection \<open>validate_gitignore\<close>

definition essential_patterns :: "string list" where
  "essential_patterns =
     [''__pycache__'', ''*.pyc'', ''.ipynb_checkpoints'',
      ''data/raw/*.csv'', ''models/'', ''.env'']"

fun check_patterns :: "string \<Rightarrow> string list \<Rightarrow> world \<Rightarrow> world" where
  "check_patterns gitignore [] w = w"
| "check_patterns gitignore (pattern # rest) w =
     (if str_in pattern gitignore
      then check_patterns gitignore rest (py_print (PatOk pattern) w)
      else check_patterns gitignore rest (py_print (PatWarn pattern) w))"

definition gitignore_try :: "world \<Rightarrow> (exn + bool) \<times> world" where
  "gitignore_try w =
     (case read_text w ''.gitignore'' of
        Inl e \<Rightarrow> (Inl e, w)
      | Inr gitignore \<Rightarrow> (Inr True, check_patterns gitignore essential_patterns w))"

definition validate_gitignore :: "world \<Rightarrow> (exn + bool) \<times> world" where
  "validate_gitignore w =
     (case gitignore_try (py_print HdrGitignore w) of
        (Inl e, w1) \<Rightarrow> (Inr False, py_print (GitignoreReadError e) w1)
      | (Inr b, w1) \<Rightarrow> (Inr b, w1))"

subsection \<open>main\<close>

definition checks :: "(string \<Rightarrow> exn + json) \<Rightarrow> (world \<Rightarrow> (exn + bool) \<times> world) list" where
  "checks loads =
     [validate_project_structure, validate_notebooks loads, validate_data_pipeline,
      validate_requirements, validate_gitignore]"

text \<open>The loop of \<open>main\<close>. It has no handler: an exception of a checker would leave it.\<close>

fun run_checks :: "(world \<Rightarrow> (exn + bool) \<times> world) list \<Rightarrow> bool \<Rightarrow> world \<Rightarrow> (exn + bool) \<times> world" where
  "run_checks [] all_checks_passed w = (Inr all_checks_passed, w)"
| "run_checks (check # rest) all_checks_passed w =
     (case check w of
        (Inl e, w1) \<Rightarrow> (Inl e, w1)
      | (Inr ok, w1) \<Rightarrow> run_checks rest (if \<not> ok then False else all_checks_passed) w1)"

definition main :: "(string \<Rightarrow> exn + json) \<Rightarrow> world \<Rightarrow> (exn + int) \<times> world" where
  "main loads w =
     (case run_checks (checks loads) True (py_print Rule (py_print Banner w)) of
        (Inl e, w1) \<Rightarrow> (Inl e, w1)
      | (Inr all_checks_passed, w1) \<Rightarrow>
          (let w2 = py_print RuleNL w1 in
           if all_checks_passed
           then (Inr 0, py_print Ready (py_print Implemented (py_print AllPassed w2)))
           else (Inr 1, py_print PleaseFix (py_print SomeFailed w2))))"

text \<open>
  \<open>sys.exit(main())\<close>: the process status is the integer that \<open>main\<close> returns; an
  exception that nobody caught would end the interpreter with status 1.
\<close>

definition exit_status :: "(string \<Rightarrow> exn + json) \<Rightarrow> world \<Rightarrow> int" where
  "exit_status loads w = (case fst (main loads w) of Inr code \<Rightarrow> code | Inl e \<Rightarrow> 1)"

section \<open>The run when a read may block and a print may fail\<close>

text \<open>
  The second model follows the same source once more, with two more things that can happen.
  A path may resolve to a named pipe that no process writes to: \<open>os.path.isdir\<close> and
  \<open>os.path.isfile\<close> are False for it, and \<open>open(p, 'r')\<close> waits for a writer and never
  returns. And \<open>print\<close> may raise: the console maps each line to the exception that printing
  it raises, if any. A step of the program returns a value, raises, or never finishes; an
  exception is caught by the handlers of the source, a step that never finishes is not.
\<close>

datatype xnode = Node node | Pipe

datatype 'a outcome = Returns 'a | Raises exn | Hangs

record xworld =
  xfiles :: "string \<Rightarrow> xnode option"
  xstdout :: "msg list"
  console :: "msg \<Rightarrow> exn option"

definition x_print :: "msg \<Rightarrow> xworld \<Rightarrow> exn option \<times> xworld" where
  "x_print m w =
     (case console w m of
        None \<Rightarrow> (None, w\<lparr>xstdout := xstdout w @ [m]\<rparr>)
      | Some e \<Rightarrow> (Some e, w))"

text \<open>
  A \<open>print\<close> followed by the end of the enclosing statement with outcome \<open>r\<close>.
\<close>

definition x_print_then :: "msg \<Rightarrow> 'a outcome \<Rightarrow> xworld \<Rightarrow> 'a outcome \<times> xworld" where
  "x_print_then m r w =
     (case x_print m w of (None, w1) \<Rightarrow> (r, w1) | (Some e, w1) \<Rightarrow> (Raises e, w1))"

text \<open>
  Several \<open>print\<close> statements in a row; the first that raises ends them.
\<close>

fun x_prints :: "msg list \<Rightarrow> xworld \<Rightarrow> exn option \<times> xworld" where
  "x_prints [] w = (None, w)"
| "x_prints (m # ms) w =
     (case x_print m w of (None, w1) \<Rightarrow> x_prints ms w1 | (Some e, w1) \<Rightarrow> (Some e, w1))"

definition x_isdir :: "xworld \<Rightarrow> string \<Rightarrow> bool" where
  "x_isdir w p = (case xfiles w p of Some (Node Dir) \<Rightarrow> True | _ \<Rightarrow> False)"

definition x_isfile :: "xworld \<Rightarrow> string \<Rightarrow> bool" where
  "x_isfile w p = (case xfiles w p of Some (Node (Reg r)) \<Rightarrow> True | _ \<Rightarrow> False)"

definition x_read_text :: "xworld \<Rightarrow> string \<Rightarrow> string outcome" where
  "x_read_text w p =
     (case xfiles w p of
        None \<Rightarrow> Raises FileNotFoundError
      | Some Pipe \<Rightarrow> Hangs
      | Some (Node Dir) \<Rightarrow> Raises IsADirectoryError
      | Some (Node (Reg r)) \<Rightarrow> (case r of Inl e \<Rightarrow> Raises e | Inr t \<Rightarrow> Returns t)
      | Some (Node (Other r)) \<Rightarrow> (case r of Inl e \<Rightarrow> Raises e | Inr t \<Rightarrow> Returns t))"

definition x_json_load :: "(string \<Rightarrow> exn + json) \<Rightarrow> xworld \<Rightarrow> string \<Rightarrow> json outcome" where
  "x_json_load loads w p =
     (case x_read_text w p of
        Returns t \<Rightarrow> (case loads t of Inl e \<Rightarrow> Raises e | Inr v \<Rightarrow> Returns v)
      | Raises e \<Rightarrow> Raises e
      | Hangs \<Rightarrow> Hangs)"

subsection \<open>The five checkers and main, second model\<close>

text \<open>
  Line for line the functions of the first model. A \<open>print\<close> inside a \<open>try\<close> block that
  raises is caught by the handler of that block; a \<open>print\<close> inside a handler or outside every
  \<open>try\<close> block that raises leaves the function.
\<close>

fun x_check_dirs :: "string list \<Rightarrow> xworld \<Rightarrow> bool option outcome \<times> xworld" where
  "x_check_dirs [] w = (Returns None, w)"
| "x_check_dirs (dir_path # rest) w =
     (if x_isdir w dir_path
      then (case x_print (DirOk dir_path) w of
              (None, w1) \<Rightarrow> x_check_dirs rest w1
            | (Some e, w1) \<Rightarrow> (Raises e, w1))
      else x_print_then (DirMissing dir_path) (Returns (Some False)) w)"

fun x_check_files :: "string list \<Rightarrow> xworld \<Rightarrow> bool option outcome \<times> xworld" where
  "x_check_files [] w = (Returns None, w)"
| "x_check_files (file_path # rest) w =
     (if x_isfile w file_path
      then (case x_print (FileOk file_path) w of
              (None, w1) \<Rightarrow> x_check_files rest w1
            | (Some e, w1) \<Rightarrow> (Raises e, w1))
      else x_print_then (FileMissing file_path) (Returns (Some False)) w)"

definition x_validate_project_structure :: "xworld \<Rightarrow> bool outcome \<times> xworld" where
  "x_validate_project_structure w =
     (case x_print HdrStructure w of
        (Some e, w1) \<Rightarrow> (Raises e, w1)
      | (None, w1) \<Rightarrow>
          (case x_check_dirs required_dirs w1 of
             (Returns (Some b), w2) \<Rightarrow> (Returns b, w2)
           | (Raises e, w2) \<Rightarrow> (Raises e, w2)
           | (Hangs, w2) \<Rightarrow> (Hangs, w2)
           | (Returns None, w2) \<Rightarrow>
               (case x_check_files required_files w2 of
                  (Returns (Some b), w3) \<Rightarrow> (Returns b, w3)
                | (Raises e, w3) \<Rightarrow> (Raises e, w3)
                | (Hangs, w3) \<Rightarrow> (Hangs, w3)
                | (Returns None, w3) \<Rightarrow> (Returns True, w3))))"

definition x_notebook_try :: "(string \<Rightarrow> exn + json) \<Rightarrow> string \<Rightarrow> xworld \<Rightarrow> bool option outcome \<times> xworld" where
  "x_notebook_try loads notebook w =
     (case x_json_load loads w notebook of
        Hangs \<Rightarrow> (Hangs, w)
      | Raises e \<Rightarrow> (Raises e, w)
      | Returns content \<Rightarrow>
          (case py_in ''cells'' content of
             Inl e \<Rightarrow> (Raises e, w)
           | Inr has_cells \<Rightarrow>
               if \<not> has_cells
               then x_print_then (NbMissingCells notebook) (Returns (Some False)) w
               else
                 (case py_getitem content ''cells'' of
                    Inl e \<Rightarrow> (Raises e, w)
                  | Inr cells \<Rightarrow>
                      (case py_len cells of
                         Inl e \<Rightarrow> (Raises e, w)
                       | Inr cell_count \<Rightarrow>
                           x_print_then (NbValid notebook cell_count) (Returns None) w))))"

definition x_notebook_step :: "(string \<Rightarrow> exn + json) \<Rightarrow> string \<Rightarrow> xworld \<Rightarrow> bool option outcome \<times> xworld" where
  "x_notebook_step loads notebook w =
     (case x_notebook_try loads notebook w of
        (Raises e, w1) \<Rightarrow>
          if e = JSONDecodeError
          then x_print_then (NbInvalidJSON notebook e) (Returns (Some False)) w1
          else x_print_then (NbError notebook e) (Returns (Some False)) w1
      | (Returns r, w1) \<Rightarrow> (Returns r, w1)
      | (Hangs, w1) \<Rightarrow> (Hangs, w1))"

fun x_check_notebooks :: "(string \<Rightarrow> exn + json) \<Rightarrow> string list \<Rightarrow> xworld \<Rightarrow> bool option outcome \<times> xworld" where
  "x_check_notebooks loads [] w = (Returns None, w)"
| "x_check_notebooks loads (notebook # rest) w =
     (case x_notebook_step loads notebook w of
        (Returns None, w1) \<Rightarrow> x_check_notebooks loads rest w1
      | (Returns (Some b), w1) \<Rightarrow> (Returns (Some b), w1)
      | (Raises e, w1) \<Rightarrow> (Raises e, w1)
      | (Hangs, w1) \<Rightarrow> (Hangs, w1))"

definition x_validate_notebooks :: "(string \<Rightarrow> exn + json) \<Rightarrow> xworld \<Rightarrow> bool outcome \<times> xworld" where
  "x_validate_notebooks loads w =
     (case x_print HdrNotebooks w of
        (Some e, w1) \<Rightarrow> (Raises e, w1)
      | (None, w1) \<Rightarrow>
          (case x_check_notebooks loads notebooks w1 of
             (Returns (Some b), w2) \<Rightarrow> (Returns b, w2)
           | (Returns None, w2) \<Rightarrow> (Returns True, w2)
           | (Raises e, w2) \<Rightarrow> (Raises e, w2)
           | (Hangs, w2) \<Rightarrow> (Hangs, w2)))"

fun x_check_layers :: "(string \<times> string list) list \<Rightarrow> xworld \<Rightarrow> exn option \<times> xworld" where
  "x_check_layers [] w = (None, w)"
| "x_check_layers ((layer, expected_files) # rest) w =
     (let readme_file = ''data/'' @ layer @ ''/README.md'' in
      if x_isfile w readme_file
      then (case x_print (LayerDocOk layer) w of
              (None, w1) \<Rightarrow> x_check_layers rest w1
            | (Some e, w1) \<Rightarrow> (Some e, w1))
      else (case x_print (LayerDocMissing layer) w of
              (None, w1) \<Rightarrow> x_check_layers rest w1
            | (Some e, w1) \<Rightarrow> (Some e, w1)))"

definition x_validate_data_pipeline :: "xworld \<Rightarrow> bool outcome \<times> xworld" where
  "x_validate_data_pipeline w =
     (case x_print HdrPipeline w of
        (Some e, w1) \<Rightarrow> (Raises e, w1)
      | (None, w1) \<Rightarrow>
          (case x_check_layers expected_data_flow w1 of
             (Some e, w2) \<Rightarrow> (Raises e, w2)
           | (None, w2) \<Rightarrow>
               (let models_readme = ''models/README.md'' in
                case (if x_isfile w2 models_readme then x_print ModelsDocOk w2
                      else x_print ModelsDocMissing w2) of
                  (Some e, w3) \<Rightarrow> (Raises e, w3)
                | (None, w3) \<Rightarrow> (Returns True, w3))))"

fun x_check_packages :: "string \<Rightarrow> string list \<Rightarrow> xworld \<Rightarrow> bool option outcome \<times> xworld" where
  "x_check_packages requirements [] w = (Returns None, w)"
| "x_check_packages requirements (package # rest) w =
     (if str_in package (lower requirements)
      then (case x_print (PkgOk package) w of
              (None, w1) \<Rightarrow> x_check_packages requirements rest w1
            | (Some e, w1) \<Rightarrow> (Raises e, w1))
      else x_print_then (PkgMissing package) (Returns (Some False)) w)"

definition x_requirements_try :: "xworld \<Rightarrow> bool outcome \<times> xworld" where
  "x_requirements_try w =
     (case x_read_text w ''requirements.txt'' of
        Hangs \<Rightarrow> (Hangs, w)
      | Raises e \<Rightarrow> (Raises e, w)
      | Returns requirements \<Rightarrow>
          (case x_check_packages requirements essential_packages w of
             (Returns (Some b), w1) \<Rightarrow> (Returns b, w1)
           | (Returns None, w1) \<Rightarrow> (Returns True, w1)
           | (Raises e, w1) \<Rightarrow> (Raises e, w1)
           | (Hangs, w1) \<Rightarrow> (Hangs, w1)))"

definition x_validate_requirements :: "xworld \<Rightarrow> bool outcome \<times> xworld" where
  "x_validate_requirements w =
     (case x_print HdrRequirements w of
        (Some e, w1) \<Rightarrow> (Raises e, w1)
      | (None, w1) \<Rightarrow>
          (case x_requirements_try w1 of
             (Raises e, w2) \<Rightarrow> x_print_then (ReqReadError e) (Returns False) w2
           | (Returns b, w2) \<Rightarrow> (Returns b, w2)
           | (Hangs, w2) \<Rightarrow> (Hangs, w2)))"

fun x_check_patterns :: "string \<Rightarrow> string list \<Rightarrow> xworld \<Rightarrow> exn option \<times> xworld" where
  "x_check_patterns gitignore [] w = (None, w)"
| "x_check_patterns gitignore (pattern # rest) w =
     (if str_in pattern gitignore
      then (case x_print (PatOk pattern) w of
              (None, w1) \<Rightarrow> x_check_patterns gitignore rest w1
            | (Some e, w1) \<Rightarrow> (Some e, w1))
      else (case x_print (PatWarn pattern) w of
              (None, w1) \<Rightarrow> x_check_patterns gitignore rest w1
            | (Some e, w1) \<Rightarrow> (Some e, w1)))"

definition x_gitignore_try :: "xworld \<Rightarrow> bool outcome \<times> xworld" where
  "x_gitignore_try w =
     (case x_read_text w ''.gitignore'' of
        Hangs \<Rightarrow> (Hangs, w)
      | Raises e \<Rightarrow> (Raises e, w)
      | Returns gitignore \<Rightarrow>
          (case x_check_patterns gitignore essential_patterns w of
             (Some e, w1) \<Rightarrow> (Raises e, w1)
           | (None, w1) \<Rightarrow> (Returns True, w1)))"

definition x_validate_gitignore :: "xworld \<Rightarrow> bool outcome \<times> xworld" where
  "x_validate_gitignore w =
     (case x_print HdrGitignore w of
        (Some e, w1) \<Rightarrow> (Raises e, w1)
      | (None, w1) \<Rightarrow>
          (case x_gitignore_try w1 of
             (Raises e, w2) \<Rightarrow> x_print_then (GitignoreReadError e) (Returns False) w2
           | (Returns b, w2) \<Rightarrow> (Returns b, w2)
           | (Hangs, w2) \<Rightarrow> (Hangs, w2)))"

definition x_checks :: "(string \<Rightarrow> exn + json) \<Rightarrow> (xworld \<Rightarrow> bool outcome \<times> xworld) list" where
  "x_checks loads =
     [x_validate_project_structure, x_validate_notebooks loads, x_validate_data_pipeline,
      x_validate_requirements, x_validate_gitignore]"

fun x_run_checks :: "(xworld \<Rightarrow> bool outcome \<times> xworld) list \<Rightarrow> bool \<Rightarrow> xworld \<Rightarrow> bool outcome \<times> xworld" where
  "x_run_checks [] all_checks_passed w = (Returns all_checks_passed, w)"
| "x_run_checks (check # rest) all_checks_passed w =
     (case check w of
        (Returns ok, w1) \<Rightarrow> x_run_checks rest (if \<not> ok then False else all_checks_passed) w1
      | (Raises e, w1) \<Rightarrow> (Raises e, w1)
      | (Hangs, w1) \<Rightarrow> (Hangs, w1))"

definition x_main :: "(string \<Rightarrow> exn + json) \<Rightarrow> xworld \<Rightarrow> int outcome \<times> xworld" where
  "x_main loads w =
     (case x_prints [Banner, Rule] w of
        (Some e, w1) \<Rightarrow> (Raises e, w1)
      | (None, w1) \<Rightarrow>
          (case x_run_checks (x_checks loads) True w1 of
             (Raises e, w2) \<Rightarrow> (Raises e, w2)
           | (Hangs, w2) \<Rightarrow> (Hangs, w2)
           | (Returns all_checks_passed, w2) \<Rightarrow>
               (case x_print RuleNL w2 of
                  (Some e, w3) \<Rightarrow> (Raises e, w3)
                | (None, w3) \<Rightarrow>
                    if all_checks_passed
                    then (case x_prints [AllPassed, Implemented, Ready] w3 of
                            (Some e, w4) \<Rightarrow> (Raises e, w4)
                          | (None, w4) \<Rightarrow> (Returns 0, w4))
                    else (case x_prints [SomeFailed, PleaseFix] w3 of
                            (Some e, w4) \<Rightarrow> (Raises e, w4)
                          | (None, w4) \<Rightarrow> (Returns 1, w4)))))"


section \<open>Notions used in the statements\<close>

text \<open>
  Printing only appends to the console. \<open>emit ms w\<close> is the world \<open>w\<close> after the lines \<open>ms\<close>
  have been printed; the directory tree is the one of \<open>w\<close>.
\<close>

definition emit :: "msg list \<Rightarrow> world \<Rightarrow> world" where
  "emit ms w = w\<lparr>stdout := stdout w @ ms\<rparr>"

text \<open>
  A path is readable when \<open>open\<close> and \<open>read\<close> succeed on it.
\<close>

definition readable :: "world \<Rightarrow> string \<Rightarrow> bool" where
  "readable w p = (case read_text w p of Inl e \<Rightarrow> False | Inr t \<Rightarrow> True)"

text \<open>
  The number of cells that the notebook checker reports for a parsed notebook: the value
  must be a dict with a key \<open>cells\<close> whose value has a length, that is a list, a dict or a
  str. \<open>notebook_ok\<close> says that a notebook file can be read, can be parsed and has such a
  count.
\<close>

definition notebook_count :: "json \<Rightarrow> nat option" where
  "notebook_count content =
     (case content of
        JObj kvs \<Rightarrow>
          (case map_of kvs ''cells'' of
             Some (JArr xs) \<Rightarrow> Some (length xs)
           | Some (JObj items) \<Rightarrow> Some (length (remdups (map fst items)))
           | Some (JStr s) \<Rightarrow> Some (length s)
           | _ \<Rightarrow> None)
      | _ \<Rightarrow> None)"

definition notebook_ok :: "(string \<Rightarrow> exn + json) \<Rightarrow> world \<Rightarrow> string \<Rightarrow> bool" where
  "notebook_ok loads w notebook =
     (case json_load loads w notebook of
        Inl e \<Rightarrow> False
      | Inr content \<Rightarrow> notebook_count content \<noteq> None)"

text \<open>
  "The parsed JSON contains a cells key", read as: the value is a dict with the key; and
  "the file can be read and parsed as valid JSON containing a cells key".
\<close>

definition has_cells_key :: "json \<Rightarrow> bool" where
  "has_cells_key content =
     (case content of JObj kvs \<Rightarrow> ''cells'' \<in> set (map fst kvs) | _ \<Rightarrow> False)"

definition claimed_notebook_ok :: "(string \<Rightarrow> exn + json) \<Rightarrow> world \<Rightarrow> string \<Rightarrow> bool" where
  "claimed_notebook_ok loads w notebook =
     (case json_load loads w notebook of Inl e \<Rightarrow> False | Inr content \<Rightarrow> has_cells_key content)"

text \<open>
  "The top-level value is an object with a list-valued cells entry".
\<close>

definition list_valued_cells :: "json \<Rightarrow> bool" where
  "list_valued_cells content =
     (case content of
        JObj kvs \<Rightarrow> (case map_of kvs ''cells'' of Some (JArr xs) \<Rightarrow> True | _ \<Rightarrow> False)
      | _ \<Rightarrow> False)"

text \<open>
  "\<open>p\<close> occurs in \<open>t\<close> as a case-insensitive substring": some contiguous part of \<open>t\<close> is equal
  to \<open>p\<close> once both are lower-cased.
\<close>

definition ci_substring :: "string \<Rightarrow> string \<Rightarrow> bool" where
  "ci_substring p t = list_ex (\<lambda>u. lower u = lower p) (sublists t)"

text \<open>
  The paths that the pipeline layout checker tests: one README per layer and the README of
  the models directory.
\<close>

definition pipeline_readmes :: "string list" where
  "pipeline_readmes =
     map (\<lambda>(layer, expected_files). ''data/'' @ layer @ ''/README.md'') expected_data_flow
     @ [''models/README.md'']"

text \<open>
  All five checkers return True on the directory tree of \<open>w\<close>.
\<close>

definition all_ok :: "(string \<Rightarrow> exn + json) \<Rightarrow> world \<Rightarrow> bool" where
  "all_ok loads w =
     (fst (validate_project_structure w) = Inr True
      \<and> fst (validate_notebooks loads w) = Inr True
      \<and> fst (validate_data_pipeline w) = Inr True
      \<and> fst (validate_requirements w) = Inr True
      \<and> fst (validate_gitignore w) = Inr True)"

text \<open>
  The same for the second model, and the paths that the run opens for reading.
\<close>

definition xemit :: "msg list \<Rightarrow> xworld \<Rightarrow> xworld" where
  "xemit ms w = w\<lparr>xstdout := xstdout w @ ms\<rparr>"


section \<open>Example directory trees\<close>

text \<open>
  The examples need a JSON decoder. \<open>demo_json\<close> lists, for each JSON text that occurs in an
  example, the value that \<open>json.loads\<close> returns for it; \<open>demo_loads\<close> answers from this table
  and raises JSONDecodeError for a text outside it. The only such text in the examples is
  \<open>{not json\<close>, which \<open>json.loads\<close> rejects as well.
\<close>

definition demo_json :: "(string \<times> json) list" where
  \<open>demo_json =
     [(''{"cells": []}'', JObj [(''cells'', JArr [])]),
      (''{"cells": 5}'', JObj [(''cells'', JInt 5)]),
      (''{"cells": "abc"}'', JObj [(''cells'', JStr ''abc'')]),
      (''{"metadata": {}}'', JObj [(''metadata'', JObj [])]),
      (''["cells"]'', JArr [JStr ''cells'']),
      (''"cells"'', JStr ''cells'')]\<close>

definition demo_loads :: "string \<Rightarrow> exn + json" where
  "demo_loads t = (case map_of demo_json t of None \<Rightarrow> Inl JSONDecodeError | Some v \<Rightarrow> Inr v)"

text \<open>
  A complete project: the six directories, the seven files, four notebooks without cells, a
  manifest that names every package (two of them capitalised) and an ignore file with every
  pattern. It has none of the README files of the pipeline layout.
\<close>

definition demo_requirements :: string where
  "demo_requirements =
     ''pandas>=1.5.0\<newline>numpy>=1.21.0\<newline>TensorFlow>=2.10.0\<newline>scikit-learn>=1.1.0\<newline>matplotlib>=3.5.0\<newline>seaborn>=0.11.0\<newline>Faker>=15.0.0\<newline>jupyter>=1.0.0\<newline>''"

definition demo_gitignore :: string where
  "demo_gitignore =
     ''__pycache__/\<newline>*.pyc\<newline>.ipynb_checkpoints\<newline>data/raw/*.csv\<newline>models/\<newline>.env\<newline>''"

definition empty_notebook :: string where
  \<open>empty_notebook = ''{"cells": []}''\<close>

definition complete_project :: "string \<Rightarrow> node option" where
  "complete_project =
     map_of
       [(''data'', Dir), (''data/raw'', Dir), (''data/stage'', Dir), (''data/processed'', Dir),
        (''notebooks'', Dir), (''models'', Dir),
        (''README.md'', Reg (Inr ''# E-commerce retention predictor'')),
        (''requirements.txt'', Reg (Inr demo_requirements)),
        (''.gitignore'', Reg (Inr demo_gitignore)),
        (''notebooks/01_data_ingestion.ipynb'', Reg (Inr empty_notebook)),
        (''notebooks/02_data_cleaning.ipynb'', Reg (Inr empty_notebook)),
        (''notebooks/03_feature_engineering.ipynb'', Reg (Inr empty_notebook)),
        (''notebooks/04_model_training.ipynb'', Reg (Inr empty_notebook))]"

definition world_of :: "(string \<Rightarrow> node option) \<Rightarrow> world" where
  "world_of fs = \<lparr>files = fs, stdout = []\<rparr>"

text \<open>
  Variations: an empty working directory, the complete project with all four notebooks
  holding a given text, with the second notebook replaced, and with another ignore file.
\<close>

definition bare_project :: "string \<Rightarrow> node option" where
  "bare_project = Map.empty"

definition with_notebooks :: "string \<Rightarrow> string \<Rightarrow> node option" where
  "with_notebooks text =
     complete_project
       (''notebooks/01_data_ingestion.ipynb'' \<mapsto> Reg (Inr text),
        ''notebooks/02_data_cleaning.ipynb'' \<mapsto> Reg (Inr text),
        ''notebooks/03_feature_engineering.ipynb'' \<mapsto> Reg (Inr text),
        ''notebooks/04_model_training.ipynb'' \<mapsto> Reg (Inr text))"

definition with_second_notebook :: "node option \<Rightarrow> string \<Rightarrow> node option" where
  "with_second_notebook n = complete_project(''notebooks/02_data_cleaning.ipynb'' := n)"

definition with_gitignore :: "node \<Rightarrow> string \<Rightarrow> node option" where
  "with_gitignore n = complete_project(''.gitignore'' \<mapsto> n)"

text \<open>
  An ignore file that spells \<open>__pycache__\<close> in capitals and has three of the six patterns.
\<close>

definition shouting_gitignore :: string where
  "shouting_gitignore = ''__PYCACHE__/\<newline>*.pyc\<newline>.env\<newline>''"

text \<open>
  A manifest without tensorflow, matplotlib, faker and jupyter.
\<close>

definition no_tensorflow_requirements :: string where
  "no_tensorflow_requirements = ''Pandas\<newline>NumPy\<newline>scikit-learn\<newline>seaborn\<newline>''"

definition no_tensorflow_project :: "string \<Rightarrow> node option" where
  "no_tensorflow_project =
     complete_project(''requirements.txt'' \<mapsto> Reg (Inr no_tensorflow_requirements))"

text \<open>
  A manifest in which numpy occurs only inside the name numpydoc and tensorflow only inside a
  comment line.
\<close>

definition numpydoc_lines :: "string list" where
  "numpydoc_lines =
     [''pandas==2.1.0'', ''numpydoc'', ''# tensorflow is installed separately'',
      ''scikit-learn'', ''matplotlib'', ''seaborn'', ''faker'', ''jupyter'']"

definition numpydoc_requirements :: string where
  "numpydoc_requirements = concat (map (\<lambda>line. line @ ''\<newline>'') numpydoc_lines)"

definition numpydoc_project :: "string \<Rightarrow> node option" where
  "numpydoc_project = complete_project(''requirements.txt'' \<mapsto> Reg (Inr numpydoc_requirements))"


definition ascii_console :: "msg \<Rightarrow> exn option" where
  "ascii_console m = (if m = Rule \<or> m = RuleNL then None else Some UnicodeEncodeError)"

definition xworld_of :: "(string \<Rightarrow> node option) \<Rightarrow> (msg \<Rightarrow> exn option) \<Rightarrow> xworld" where
  "xworld_of fs c = \<lparr>xfiles = map_option Node \<circ> fs, xstdout = [], console = c\<rparr>"


section \<open>The checkers in closed form\<close>

text \<open>
  Each loop is characterised by what it returns and what it prints. Printing never changes
  the directory tree, and every test of the script looks at the directory tree only.
\<close>

lemma py_print_emit: "py_print m w = emit [m] w"
  by (simp add: py_print_def emit_def)

lemma emit_emit [simp]: "emit ms (emit ns w) = emit (ns @ ms) w"
  by (simp add: emit_def)

lemma emit_Nil [simp]: "emit [] w = w"
  by (simp add: emit_def)

lemma files_emit [simp]: "files (emit ms w) = files w"
  by (simp add: emit_def)

lemma stdout_emit [simp]: "stdout (emit ms w) = stdout w @ ms"
  by (simp add: emit_def)

lemma isdir_emit [simp]: "os_path_isdir (emit ms w) = os_path_isdir w"
  by (rule ext) (simp add: os_path_isdir_def)

lemma isfile_emit [simp]: "os_path_isfile (emit ms w) = os_path_isfile w"
  by (rule ext) (simp add: os_path_isfile_def)

lemma read_text_emit [simp]: "read_text (emit ms w) = read_text w"
  by (rule ext) (simp add: read_text_def)

lemma json_load_emit [simp]: "json_load loads (emit ms w) = json_load loads w"
  by (rule ext) (simp add: json_load_def)

lemma check_dirs_closed:
  "check_dirs ds w =
     (case find (\<lambda>d. \<not> os_path_isdir w d) ds of
        None \<Rightarrow> (None, emit (map DirOk ds) w)
      | Some d \<Rightarrow> (Some False, emit (map DirOk (takeWhile (os_path_isdir w) ds) @ [DirMissing d]) w))"
proof (induction ds arbitrary: w)
  case Nil
  show ?case by simp
next
  case (Cons d ds)
  show ?case
    by (simp add: Cons.IH py_print_emit split: option.split)
qed

lemma check_files_closed:
  "check_files fs w =
     (case find (\<lambda>f. \<not> os_path_isfile w f) fs of
        None \<Rightarrow> (None, emit (map FileOk fs) w)
      | Some f \<Rightarrow> (Some False, emit (map FileOk (takeWhile (os_path_isfile w) fs) @ [FileMissing f]) w))"
proof (induction fs arbitrary: w)
  case Nil
  show ?case by simp
next
  case (Cons f fs)
  show ?case
    by (simp add: Cons.IH py_print_emit split: option.split)
qed

lemma find_None_list_all: "(find (\<lambda>x. \<not> P x) xs = None) = list_all P xs"
  by (induction xs) auto

lemma structure_closed:
  "validate_project_structure w =
     (case find (\<lambda>d. \<not> os_path_isdir w d) required_dirs of
        Some d \<Rightarrow>
          (Inr False,
           emit (HdrStructure # map DirOk (takeWhile (os_path_isdir w) required_dirs) @ [DirMissing d]) w)
      | None \<Rightarrow>
          (case find (\<lambda>f. \<not> os_path_isfile w f) required_files of
             Some f \<Rightarrow>
               (Inr False,
                emit (HdrStructure # map DirOk required_dirs
                      @ map FileOk (takeWhile (os_path_isfile w) required_files) @ [FileMissing f]) w)
           | None \<Rightarrow>
               (Inr True, emit (HdrStructure # map DirOk required_dirs @ map FileOk required_files) w)))"
  by (simp add: validate_project_structure_def check_dirs_closed check_files_closed py_print_emit
      split: option.split)

subsection \<open>Notebooks\<close>

lemma files_eq_isdir: "files w' = files w \<Longrightarrow> os_path_isdir w' = os_path_isdir w"
  by (rule ext) (simp add: os_path_isdir_def)

lemma files_eq_isfile: "files w' = files w \<Longrightarrow> os_path_isfile w' = os_path_isfile w"
  by (rule ext) (simp add: os_path_isfile_def)

lemma files_eq_read_text: "files w' = files w \<Longrightarrow> read_text w' = read_text w"
  by (rule ext) (simp add: read_text_def)

lemma files_eq_json_load: "files w' = files w \<Longrightarrow> json_load loads w' = json_load loads w"
  using files_eq_read_text [of w' w] by (simp add: json_load_def fun_eq_iff)

lemma files_eq_notebook_ok: "files w' = files w \<Longrightarrow> notebook_ok loads w' = notebook_ok loads w"
  using files_eq_json_load [of w' w loads] by (simp add: notebook_ok_def fun_eq_iff)

lemma notebook_try_object:
  "json_load loads w notebook = Inr (JObj kvs) \<Longrightarrow>
   notebook_try loads notebook w =
     (case map_of kvs ''cells'' of
        None \<Rightarrow> (Inr (Some False), py_print (NbMissingCells notebook) w)
      | Some cells \<Rightarrow>
          (case py_len cells of
             Inl e \<Rightarrow> (Inl e, w)
           | Inr n \<Rightarrow> (Inr None, py_print (NbValid notebook n) w)))"
proof (cases "map_of kvs ''cells''")
  case None
  assume "json_load loads w notebook = Inr (JObj kvs)"
  with None show ?thesis
    by (simp add: notebook_try_def map_of_eq_None_iff [symmetric] del: map_of_eq_None_iff)
next
  case (Some v)
  assume "json_load loads w notebook = Inr (JObj kvs)"
  moreover from Some have "''cells'' \<in> fst ` set kvs"
    by (metis map_of_eq_None_iff option.distinct(1))
  ultimately show ?thesis
    using Some by (simp add: notebook_try_def split: sum.split)
qed

lemma notebook_step_fst:
  "fst (notebook_step loads notebook w) = (if notebook_ok loads w notebook then None else Some False)"
proof (cases "json_load loads w notebook")
  case (Inl e)
  then show ?thesis
    by (simp add: notebook_step_def notebook_try_def notebook_ok_def)
next
  case (Inr content)
  show ?thesis
  proof (cases content)
    case (JObj kvs)
    show ?thesis
    proof (cases "map_of kvs ''cells''")
      case None
      with Inr JObj show ?thesis
        by (simp add: notebook_step_def notebook_try_object notebook_ok_def notebook_count_def)
    next
      case (Some v)
      with Inr JObj show ?thesis
        by (cases v)
          (simp_all add: notebook_step_def notebook_try_object notebook_ok_def notebook_count_def)
    qed
  next
    case (JArr xs)
    with Inr show ?thesis
      by (simp add: notebook_step_def notebook_try_def notebook_ok_def notebook_count_def)
  next
    case (JStr s)
    with Inr show ?thesis
      by (simp add: notebook_step_def notebook_try_def notebook_ok_def notebook_count_def)
  qed (use Inr in \<open>simp_all add: notebook_step_def notebook_try_def notebook_ok_def notebook_count_def\<close>)
qed

lemma notebook_try_files: "files (snd (notebook_try loads notebook w)) = files w"
  by (simp add: notebook_try_def py_print_emit split: sum.split)

lemma notebook_step_files: "files (snd (notebook_step loads notebook w)) = files w"
proof -
  have "files (snd (notebook_try loads notebook w)) = files w"
    by (rule notebook_try_files)
  then show ?thesis
    by (cases "notebook_try loads notebook w")
      (auto simp: notebook_step_def py_print_emit split: sum.split)
qed

lemma check_notebooks_files: "files (snd (check_notebooks loads nbs w)) = files w"
proof (induction nbs arbitrary: w)
  case Nil
  show ?case by simp
next
  case (Cons nb nbs)
  obtain r w1 where step: "notebook_step loads nb w = (r, w1)"
    by (cases "notebook_step loads nb w")
  have "files w1 = files w"
    using notebook_step_files [of loads nb w] step by simp
  with step Cons.IH [of w1] show ?case
    by (cases r) simp_all
qed

lemma check_notebooks_fst:
  "fst (check_notebooks loads nbs w) =
     (if list_all (notebook_ok loads w) nbs then None else Some False)"
proof (induction nbs arbitrary: w)
  case Nil
  show ?case by simp
next
  case (Cons nb nbs)
  obtain r w1 where step: "notebook_step loads nb w = (r, w1)"
    by (cases "notebook_step loads nb w")
  have r: "r = (if notebook_ok loads w nb then None else Some False)"
    using notebook_step_fst [of loads nb w] step by simp
  have "files w1 = files w"
    using notebook_step_files [of loads nb w] step by simp
  then have "notebook_ok loads w1 = notebook_ok loads w"
    by (rule files_eq_notebook_ok)
  with step r Cons.IH [of w1] show ?case
    by simp
qed

lemma notebooks_fst:
  "fst (validate_notebooks loads w) = Inr (list_all (notebook_ok loads w) notebooks)"
proof -
  let ?w1 = "py_print HdrNotebooks w"
  have "notebook_ok loads ?w1 = notebook_ok loads w"
    by (rule files_eq_notebook_ok) (simp add: py_print_emit)
  then have "fst (check_notebooks loads notebooks ?w1) =
      (if list_all (notebook_ok loads w) notebooks then None else Some False)"
    by (simp add: check_notebooks_fst)
  then show ?thesis
    by (cases "check_notebooks loads notebooks ?w1")
      (auto simp: validate_notebooks_def split: option.split if_splits)
qed

lemma notebooks_files: "files (snd (validate_notebooks loads w)) = files w"
proof -
  have "files (snd (check_notebooks loads notebooks (py_print HdrNotebooks w))) = files w"
    by (simp add: check_notebooks_files py_print_emit)
  then show ?thesis
    by (cases "check_notebooks loads notebooks (py_print HdrNotebooks w)")
      (auto simp: validate_notebooks_def split: option.split)
qed

subsection \<open>Pipeline layout, requirements and ignore patterns\<close>

lemma check_layers_closed:
  "check_layers layers w =
     emit (map (\<lambda>(layer, expected_files).
                  if os_path_isfile w (''data/'' @ layer @ ''/README.md'')
                  then LayerDocOk layer else LayerDocMissing layer) layers) w"
proof (induction layers arbitrary: w)
  case Nil
  show ?case by simp
next
  case (Cons a layers)
  obtain layer expected_files where a: "a = (layer, expected_files)"
    by (cases a)
  show ?case
    by (simp add: a Cons.IH py_print_emit)
qed

lemma pipeline_closed:
  "validate_data_pipeline w =
     (Inr True,
      emit (HdrPipeline #
            map (\<lambda>(layer, expected_files).
                   if os_path_isfile w (''data/'' @ layer @ ''/README.md'')
                   then LayerDocOk layer else LayerDocMissing layer) expected_data_flow
            @ [if os_path_isfile w ''models/README.md'' then ModelsDocOk else ModelsDocMissing]) w)"
  by (simp add: validate_data_pipeline_def check_layers_closed py_print_emit)

lemma check_packages_closed:
  "check_packages requirements ps w =
     (case find (\<lambda>p. \<not> str_in p (lower requirements)) ps of
        None \<Rightarrow> (None, emit (map PkgOk ps) w)
      | Some p \<Rightarrow>
          (Some False,
           emit (map PkgOk (takeWhile (\<lambda>p. str_in p (lower requirements)) ps) @ [PkgMissing p]) w))"
proof (induction ps arbitrary: w)
  case Nil
  show ?case by simp
next
  case (Cons p ps)
  show ?case
    by (simp add: Cons.IH py_print_emit split: option.split)
qed

lemma requirements_closed:
  "validate_requirements w =
     (case read_text w ''requirements.txt'' of
        Inl e \<Rightarrow> (Inr False, emit [HdrRequirements, ReqReadError e] w)
      | Inr requirements \<Rightarrow>
          (case find (\<lambda>p. \<not> str_in p (lower requirements)) essential_packages of
             None \<Rightarrow> (Inr True, emit (HdrRequirements # map PkgOk essential_packages) w)
           | Some p \<Rightarrow>
               (Inr False,
                emit (HdrRequirements
                      # map PkgOk (takeWhile (\<lambda>p. str_in p (lower requirements)) essential_packages)
                      @ [PkgMissing p]) w)))"
  by (simp add: validate_requirements_def requirements_try_def check_packages_closed py_print_emit
      split: sum.split option.split)

lemma check_patterns_closed:
  "check_patterns gitignore ps w =
     emit (map (\<lambda>p. if str_in p gitignore then PatOk p else PatWarn p) ps) w"
proof (induction ps arbitrary: w)
  case Nil
  show ?case by simp
next
  case (Cons p ps)
  show ?case
    by (simp add: Cons.IH py_print_emit)
qed

lemma gitignore_closed:
  "validate_gitignore w =
     (case read_text w ''.gitignore'' of
        Inl e \<Rightarrow> (Inr False, emit [HdrGitignore, GitignoreReadError e] w)
      | Inr gitignore \<Rightarrow>
          (Inr True,
           emit (HdrGitignore
                 # map (\<lambda>p. if str_in p gitignore then PatOk p else PatWarn p) essential_patterns) w))"
  by (simp add: validate_gitignore_def gitignore_try_def check_patterns_closed py_print_emit
      split: sum.split)

subsection \<open>Verdicts and the frame\<close>

lemma structure_fst:
  "fst (validate_project_structure w) =
     Inr (list_all (os_path_isdir w) required_dirs \<and> list_all (os_path_isfile w) required_files)"
  by (simp add: structure_closed find_None_list_all [symmetric] split: option.split)

lemma structure_files: "files (snd (validate_project_structure w)) = files w"
  by (simp add: structure_closed split: option.split)

lemma pipeline_files: "files (snd (validate_data_pipeline w)) = files w"
  by (simp add: pipeline_closed)

lemma requirements_fst:
  "fst (validate_requirements w) =
     Inr (case read_text w ''requirements.txt'' of
            Inl e \<Rightarrow> False
          | Inr requirements \<Rightarrow>
              list_all (\<lambda>p. str_in p (lower requirements)) essential_packages)"
  by (simp add: requirements_closed find_None_list_all [symmetric] split: sum.split option.split)

lemma requirements_files: "files (snd (validate_requirements w)) = files w"
  by (simp add: requirements_closed split: sum.split option.split)

lemma gitignore_fst: "fst (validate_gitignore w) = Inr (readable w ''.gitignore'')"
  by (simp add: gitignore_closed readable_def split: sum.split)

lemma gitignore_files: "files (snd (validate_gitignore w)) = files w"
  by (simp add: gitignore_closed split: sum.split)

lemma files_eq_structure:
  assumes "files w' = files w"
  shows "fst (validate_project_structure w') = fst (validate_project_structure w)"
  using files_eq_isdir [OF assms] files_eq_isfile [OF assms] by (simp add: structure_fst)

lemma files_eq_notebooks:
  assumes "files w' = files w"
  shows "fst (validate_notebooks loads w') = fst (validate_notebooks loads w)"
  using files_eq_notebook_ok [OF assms, of loads] by (simp add: notebooks_fst)

lemma files_eq_requirements:
  assumes "files w' = files w"
  shows "fst (validate_requirements w') = fst (validate_requirements w)"
  using files_eq_read_text [OF assms] by (simp add: requirements_fst)

lemma files_eq_gitignore:
  assumes "files w' = files w"
  shows "fst (validate_gitignore w') = fst (validate_gitignore w)"
  using files_eq_read_text [OF assms] by (simp add: gitignore_fst readable_def)

subsection \<open>The orchestrator\<close>

lemma run_checks_closed:
  "\<exists>w'. run_checks (checks loads) True w = (Inr (all_ok loads w), w') \<and> files w' = files w"
proof -
  obtain b1 w1 where c1: "validate_project_structure w = (Inr b1, w1)"
    using structure_fst [of w] by (cases "validate_project_structure w") auto
  have f1: "files w1 = files w"
    using structure_files [of w] c1 by simp
  obtain b2 w2 where c2: "validate_notebooks loads w1 = (Inr b2, w2)"
    using notebooks_fst [of loads w1] by (cases "validate_notebooks loads w1") auto
  have f2: "files w2 = files w"
    using notebooks_files [of loads w1] c2 f1 by simp
  obtain b3 w3 where c3: "validate_data_pipeline w2 = (Inr b3, w3)"
    by (simp add: pipeline_closed)
  have f3: "files w3 = files w"
    using pipeline_files [of w2] c3 f2 by simp
  obtain b4 w4 where c4: "validate_requirements w3 = (Inr b4, w4)"
    using requirements_fst [of w3] by (cases "validate_requirements w3") auto
  have f4: "files w4 = files w"
    using requirements_files [of w3] c4 f3 by simp
  obtain b5 w5 where c5: "validate_gitignore w4 = (Inr b5, w5)"
    using gitignore_fst [of w4] by (cases "validate_gitignore w4") auto
  have f5: "files w5 = files w"
    using gitignore_files [of w4] c5 f4 by simp
  have r1: "fst (validate_project_structure w) = Inr b1"
    using c1 by simp
  have r2: "fst (validate_notebooks loads w) = Inr b2"
    using files_eq_notebooks [OF f1, of loads] c2 by simp
  have r3: "fst (validate_data_pipeline w) = Inr True" and b3: "b3"
    using c3 by (simp_all add: pipeline_closed)
  have r4: "fst (validate_requirements w) = Inr b4"
    using files_eq_requirements [OF f3] c4 by simp
  have r5: "fst (validate_gitignore w) = Inr b5"
    using files_eq_gitignore [OF f4] c5 by simp
  have "run_checks (checks loads) True w = (Inr (b1 \<and> b2 \<and> b3 \<and> b4 \<and> b5), w5)"
    by (simp add: checks_def c1 c2 c3 c4 c5)
  moreover have "all_ok loads w = (b1 \<and> b2 \<and> b3 \<and> b4 \<and> b5)"
    by (simp add: all_ok_def r1 r2 r3 r4 r5 b3)
  ultimately show ?thesis
    using f5 by simp
qed

lemma files_eq_all_ok:
  assumes "files w' = files w"
  shows "all_ok loads w' = all_ok loads w"
  using files_eq_structure [OF assms] files_eq_notebooks [OF assms, of loads]
    files_eq_requirements [OF assms] files_eq_gitignore [OF assms]
  by (simp add: all_ok_def pipeline_closed)

lemma main_closed:
  "\<exists>w'. main loads w = (Inr (if all_ok loads w then 0 else 1), w') \<and> files w' = files w"
proof -
  let ?w0 = "py_print Rule (py_print Banner w)"
  have f0: "files ?w0 = files w"
    by (simp add: py_print_emit)
  obtain w1 where run: "run_checks (checks loads) True ?w0 = (Inr (all_ok loads ?w0), w1)"
    and f1: "files w1 = files ?w0"
    using run_checks_closed [of loads ?w0] by blast
  have ok: "all_ok loads ?w0 = all_ok loads w"
    by (rule files_eq_all_ok [OF f0])
  show ?thesis
    using run f1 f0 ok by (simp add: main_def py_print_emit)
qed

lemma exit_status_all_ok: "exit_status loads w = (if all_ok loads w then 0 else 1)"
  using main_closed [of loads w] by (auto simp: exit_status_def)

lemma all_ok_unfold:
  "all_ok loads w =
     (list_all (os_path_isdir w) required_dirs \<and> list_all (os_path_isfile w) required_files
      \<and> list_all (notebook_ok loads w) notebooks
      \<and> (case read_text w ''requirements.txt'' of
            Inl e \<Rightarrow> False
          | Inr requirements \<Rightarrow>
              list_all (\<lambda>p. str_in p (lower requirements)) essential_packages)
      \<and> readable w ''.gitignore'')"
  by (simp add: all_ok_def structure_fst notebooks_fst pipeline_closed requirements_fst
      gitignore_fst)

subsection \<open>Auxiliary facts\<close>

lemma remove_dir:
  "p \<in> set ds \<Longrightarrow> \<not> list_all (os_path_isdir (w\<lparr>files := (files w)(p := None)\<rparr>)) ds"
  by (auto simp: list_all_iff os_path_isdir_def)

lemma remove_file:
  "p \<in> set fs \<Longrightarrow> \<not> list_all (os_path_isfile (w\<lparr>files := (files w)(p := None)\<rparr>)) fs"
  by (auto simp: list_all_iff os_path_isfile_def)

lemma sublist_map_lower:
  assumes "sublist u t"
  shows "sublist (lower u) (lower t)"
proof -
  from assms obtain ps ss where "t = ps @ u @ ss"
    by (auto simp: sublist_def)
  then have "lower t = lower ps @ lower u @ lower ss"
    by (simp add: lower_def)
  then show ?thesis
    by (simp add: sublist_def) blast
qed

lemma ci_substring_str_in:
  assumes "lower p = p"
  shows "ci_substring p t = str_in p (lower t)"
proof
  assume "ci_substring p t"
  then obtain u where "sublist u t" and "lower u = lower p"
    by (auto simp: ci_substring_def list_ex_iff)
  with assms show "str_in p (lower t)"
    using sublist_map_lower [of u t] by (simp add: str_in_def)
next
  assume "str_in p (lower t)"
  then have "sublist p (map lower_char t)"
    by (simp add: str_in_def lower_def)
  then obtain u where "sublist u t" and "p = map lower_char u"
    using sublist_map_rightE by blast
  then have "u \<in> set (sublists t)" and "lower u = lower p"
    using assms by (simp_all add: lower_def)
  then show "ci_substring p t"
    unfolding ci_substring_def list_ex_iff by (rule bexI [rotated])
qed

lemma essential_packages_lower: "p \<in> set essential_packages \<Longrightarrow> lower p = p"
  by (auto simp: essential_packages_def lower_def lower_char_def)

lemma essential_ci:
  "p \<in> set essential_packages \<Longrightarrow> str_in p (lower t) = ci_substring p t"
  by (simp add: ci_substring_str_in essential_packages_lower)

lemma find_cong_set: "(\<And>x. x \<in> set xs \<Longrightarrow> P x = Q x) \<Longrightarrow> find P xs = find Q xs"
  by (induction xs) auto

lemma takeWhile_cong_set:
  "(\<And>x. x \<in> set xs \<Longrightarrow> P x = Q x) \<Longrightarrow> takeWhile P xs = takeWhile Q xs"
  by (induction xs) auto

lemma list_all_cong_set:
  "(\<And>x. x \<in> set xs \<Longrightarrow> P x = Q x) \<Longrightarrow> list_all P xs = list_all Q xs"
  by (induction xs) auto

lemma notebook_fails:
  assumes "notebook \<in> set notebooks" and "\<not> notebook_ok loads w notebook"
  shows "fst (validate_notebooks loads w) = Inr False"
  using assms by (auto simp: notebooks_fst list_all_iff)

lemma notebook_step_raise:
  assumes "json_load loads w notebook = Inl e"
  shows "notebook_step loads notebook w =
     (Some False,
      py_print (if e = JSONDecodeError then NbInvalidJSON notebook e else NbError notebook e) w)"
  using assms by (simp add: notebook_step_def notebook_try_def)

lemma notebook_step_missing:
  assumes "json_load loads w notebook = Inr content" and "py_in ''cells'' content = Inr False"
  shows "notebook_step loads notebook w = (Some False, py_print (NbMissingCells notebook) w)"
  using assms by (simp add: notebook_step_def notebook_try_def)

lemma notebook_step_object:
  assumes "json_load loads w notebook = Inr (JObj kvs)" and "map_of kvs ''cells'' = Some cells"
  shows "notebook_step loads notebook w =
     (case py_len cells of
        Inl e \<Rightarrow> (Some False, py_print (NbError notebook e) w)
      | Inr n \<Rightarrow> (None, py_print (NbValid notebook n) w))"
proof (cases "py_len cells")
  case (Inl e)
  then have "e = TypeError"
    by (cases cells) auto
  with Inl assms show ?thesis
    by (simp add: notebook_step_def notebook_try_object)
next
  case (Inr n)
  with assms show ?thesis
    by (simp add: notebook_step_def notebook_try_object)
qed

lemma py_in_False_not_ok:
  assumes "json_load loads w notebook = Inr content" and "py_in ''cells'' content = Inr False"
  shows "\<not> notebook_ok loads w notebook"
proof (cases content)
  case (JObj kvs)
  with assms have "''cells'' \<notin> fst ` set kvs"
    by simp
  then have "map_of kvs ''cells'' = None"
    by (simp add: map_of_eq_None_iff)
  with assms JObj show ?thesis
    by (simp add: notebook_ok_def notebook_count_def)
qed (use assms in \<open>simp_all add: notebook_ok_def notebook_count_def\<close>)

lemma notebook_ok_step:
  "notebook_ok loads w notebook = (fst (notebook_step loads notebook w) = None)"
  by (simp add: notebook_step_fst)

section \<open>The second model on a console that accepts every line\<close>


lemma xfiles_xemit [simp]: "xfiles (xemit ms w) = xfiles w"
  by (simp add: xemit_def)

lemma console_xemit [simp]: "console (xemit ms w) = console w"
  by (simp add: xemit_def)



lemma x_isdir_xemit [simp]: "x_isdir (xemit ms w) = x_isdir w"
  by (rule ext) (simp add: x_isdir_def)

lemma x_isfile_xemit [simp]: "x_isfile (xemit ms w) = x_isfile w"
  by (rule ext) (simp add: x_isfile_def)






lemma x_read_text_xemit [simp]: "x_read_text (xemit ms w) = x_read_text w"
  by (rule ext) (simp add: x_read_text_def)

lemma x_json_load_xemit [simp]: "x_json_load loads (xemit ms w) = x_json_load loads w"
  by (rule ext) (simp add: x_json_load_def)















text \<open>
  On a console that cannot encode the banner, the first statement of \<open>main\<close> raises and
  nothing catches it.
\<close>

lemma ascii_console_run_raises:
  "x_main demo_loads (xworld_of complete_project ascii_console) =
     (Raises UnicodeEncodeError, xworld_of complete_project ascii_console)"
  by (simp add: x_main_def x_print_def ascii_console_def xworld_of_def)

section \<open>The claims\<close>

subsection \<open>C1: the exit status\<close>

text \<open>
  Claim C1. On every directory tree the exit status is 0 if and only if each of the five
  checkers returns True on that tree. The pipeline layout checker always returns True and the
  ignore-pattern checker returns True exactly when \<open>.gitignore\<close> is readable, so the exit
  status is 0 if and only if the structure, notebook and requirements checkers return True
  and \<open>.gitignore\<close> is readable.
\<close>

theorem exit_status_iff_all_checkers:
  "(exit_status loads w = 0) =
     (fst (validate_project_structure w) = Inr True
      \<and> fst (validate_notebooks loads w) = Inr True
      \<and> fst (validate_data_pipeline w) = Inr True
      \<and> fst (validate_requirements w) = Inr True
      \<and> fst (validate_gitignore w) = Inr True)
   \<and> fst (validate_data_pipeline w) = Inr True
   \<and> fst (validate_gitignore w) = Inr (readable w ''.gitignore'')
   \<and> (exit_status loads w = 0) =
     (fst (validate_project_structure w) = Inr True
      \<and> fst (validate_notebooks loads w) = Inr True
      \<and> fst (validate_requirements w) = Inr True
      \<and> readable w ''.gitignore'')"
  by (simp add: exit_status_all_ok all_ok_def pipeline_closed gitignore_fst)

text \<open>
  The complete project exits with 0; without its \<open>.gitignore\<close> it exits with 1.
\<close>

theorem exit_status_iff_all_checkers_witness:
  "exit_status demo_loads (world_of complete_project) = 0
   \<and> readable (world_of complete_project) ''.gitignore''
   \<and> exit_status demo_loads (world_of (complete_project(''.gitignore'' := None))) = 1"
proof -
  have a: "fst (validate_project_structure (world_of complete_project)) = Inr True"
    by code_simp
  have b: "fst (validate_notebooks demo_loads (world_of complete_project)) = Inr True"
    by code_simp
  have c: "fst (validate_requirements (world_of complete_project)) = Inr True"
    by code_simp
  have d: "readable (world_of complete_project) ''.gitignore''"
    by code_simp
  have e: "\<not> readable (world_of (complete_project(''.gitignore'' := None))) ''.gitignore''"
    by code_simp
  have f: "exit_status demo_loads (world_of (complete_project(''.gitignore'' := None))) \<noteq> 0"
    using exit_status_iff_all_checkers [of demo_loads "world_of (complete_project(''.gitignore'' := None))"] e
    by simp
  have g: "exit_status demo_loads (world_of (complete_project(''.gitignore'' := None))) = 1"
    using f by (simp add: exit_status_all_ok split: if_splits)
  show ?thesis
    using exit_status_iff_all_checkers [of demo_loads "world_of complete_project"] a b c d g
    by simp
qed

subsection \<open>C2: the structure checker\<close>

text \<open>
  Claim C2. There are six required directories and seven required files. The structure
  checker returns True if and only if each required directory is a directory and each
  required file is a regular file. Removing any one required path makes it return False. It
  tests the directories first and returns False at the first missing directory, or else at
  the first missing file: the console shows the items found before it, then the missing
  item, and nothing after.
\<close>

theorem structure_checker_spec:
  "length required_dirs = 6 \<and> length required_files = 7
   \<and> fst (validate_project_structure w) =
       Inr (list_all (os_path_isdir w) required_dirs \<and> list_all (os_path_isfile w) required_files)
   \<and> (\<forall>p \<in> set required_dirs \<union> set required_files.
         fst (validate_project_structure (w\<lparr>files := (files w)(p := None)\<rparr>)) = Inr False)
   \<and> validate_project_structure w =
       (case find (\<lambda>d. \<not> os_path_isdir w d) required_dirs of
          Some d \<Rightarrow>
            (Inr False,
             emit (HdrStructure # map DirOk (takeWhile (os_path_isdir w) required_dirs)
                   @ [DirMissing d]) w)
        | None \<Rightarrow>
            (case find (\<lambda>f. \<not> os_path_isfile w f) required_files of
               Some f \<Rightarrow>
                 (Inr False,
                  emit (HdrStructure # map DirOk required_dirs
                        @ map FileOk (takeWhile (os_path_isfile w) required_files)
                        @ [FileMissing f]) w)
             | None \<Rightarrow>
                 (Inr True,
                  emit (HdrStructure # map DirOk required_dirs @ map FileOk required_files) w)))"
proof -
  have len: "length required_dirs = 6 \<and> length required_files = 7"
    by (simp add: required_dirs_def required_files_def)
  have removal: "fst (validate_project_structure (w\<lparr>files := (files w)(p := None)\<rparr>)) = Inr False"
    if "p \<in> set required_dirs \<union> set required_files" for p
    using that remove_dir [of p required_dirs w] remove_file [of p required_files w]
    by (auto simp: structure_fst)
  show ?thesis
    using len removal structure_fst [of w] structure_closed [of w] by blast
qed

text \<open>
  The complete project passes; without \<open>notebooks/02_data_cleaning.ipynb\<close> it fails.
\<close>

theorem structure_checker_spec_witness:
  "fst (validate_project_structure (world_of complete_project)) = Inr True
   \<and> fst (validate_project_structure
        (world_of complete_project\<lparr>files := (files (world_of complete_project))
           (''notebooks/02_data_cleaning.ipynb'' := None)\<rparr>)) = Inr False"
proof -
  have a: "list_all (os_path_isdir (world_of complete_project)) required_dirs"
    by code_simp
  have b: "list_all (os_path_isfile (world_of complete_project)) required_files"
    by code_simp
  have c: "''notebooks/02_data_cleaning.ipynb'' \<in> set required_dirs \<union> set required_files"
    by (simp add: required_files_def)
  note spec = structure_checker_spec [of "world_of complete_project"]
  have "fst (validate_project_structure (world_of complete_project)) =
      Inr (list_all (os_path_isdir (world_of complete_project)) required_dirs
           \<and> list_all (os_path_isfile (world_of complete_project)) required_files)"
    using spec by blast
  with a b have first: "fst (validate_project_structure (world_of complete_project)) = Inr True"
    by simp
  have "\<forall>p \<in> set required_dirs \<union> set required_files.
      fst (validate_project_structure
        (world_of complete_project\<lparr>files := (files (world_of complete_project))(p := None)\<rparr>))
      = Inr False"
    using spec by blast
  with c first show ?thesis
    by blast
qed

subsection \<open>C3: the notebook checker\<close>

text \<open>
  Claim C3 says that the notebook checker returns True if and only if each of the four
  notebooks can be read and parsed as valid JSON containing a \<open>cells\<close> key. That is false:
  when each notebook holds \<open>{"cells": 5}\<close>, each one is read and parsed and contains the key,
  yet the checker returns False, because \<open>len(5)\<close> raises TypeError and the handler for
  \<open>Exception\<close> returns False.
\<close>

theorem notebook_cells_key_counterexample:
  \<open>list_all (claimed_notebook_ok demo_loads (world_of (with_notebooks ''{"cells": 5}''))) notebooks
   \<and> fst (validate_notebooks demo_loads (world_of (with_notebooks ''{"cells": 5}''))) = Inr False\<close>
  by code_simp

text \<open>
  Claim C3, amended. The notebook checker returns True if and only if each of the four
  notebooks can be read and parsed and the parsed value is a dict with a \<open>cells\<close> key whose
  value has a length (a list, a dict or a str). If the text of one of the notebooks makes
  the decoder raise, the checker returns False and the line for that notebook is the
  invalid-JSON line when the exception is JSONDecodeError. If \<open>'cells' in content\<close> is
  False for one of them, the checker returns False and the line is the missing-key line. A
  notebook whose \<open>cells\<close> value is the empty list passes and is reported with 0 cells.
\<close>

theorem notebook_checker_spec:
  "fst (validate_notebooks loads w) = Inr (list_all (notebook_ok loads w) notebooks)
   \<and> (notebook \<in> set notebooks \<and> read_text w notebook = Inr t \<and> loads t = Inl e \<longrightarrow>
        fst (validate_notebooks loads w) = Inr False
        \<and> notebook_step loads notebook w =
            (Some False,
             py_print (if e = JSONDecodeError then NbInvalidJSON notebook e
                       else NbError notebook e) w))
   \<and> (notebook \<in> set notebooks \<and> json_load loads w notebook = Inr content
        \<and> py_in ''cells'' content = Inr False \<longrightarrow>
        fst (validate_notebooks loads w) = Inr False
        \<and> notebook_step loads notebook w = (Some False, py_print (NbMissingCells notebook) w))
   \<and> (json_load loads w notebook = Inr (JObj kvs) \<and> map_of kvs ''cells'' = Some (JArr []) \<longrightarrow>
        notebook_ok loads w notebook
        \<and> notebook_step loads notebook w = (None, py_print (NbValid notebook 0) w))"
proof -
  have invalid: "fst (validate_notebooks loads w) = Inr False
        \<and> notebook_step loads notebook w =
            (Some False,
             py_print (if e = JSONDecodeError then NbInvalidJSON notebook e
                       else NbError notebook e) w)"
    if "notebook \<in> set notebooks" and "read_text w notebook = Inr t" and "loads t = Inl e"
  proof -
    from that have load: "json_load loads w notebook = Inl e"
      by (simp add: json_load_def)
    then have "\<not> notebook_ok loads w notebook"
      by (simp add: notebook_ok_def)
    with that(1) load show ?thesis
      by (simp add: notebook_fails notebook_step_raise)
  qed
  have missing: "fst (validate_notebooks loads w) = Inr False
        \<and> notebook_step loads notebook w = (Some False, py_print (NbMissingCells notebook) w)"
    if "notebook \<in> set notebooks" and "json_load loads w notebook = Inr content"
      and "py_in ''cells'' content = Inr False"
    using that by (simp add: notebook_fails py_in_False_not_ok notebook_step_missing)
  have empty: "notebook_ok loads w notebook
        \<and> notebook_step loads notebook w = (None, py_print (NbValid notebook 0) w)"
    if "json_load loads w notebook = Inr (JObj kvs)" and "map_of kvs ''cells'' = Some (JArr [])"
    using that notebook_step_object [OF that]
    by (simp add: notebook_ok_def notebook_count_def)
  show ?thesis
    using invalid missing empty notebooks_fst [of loads w] by blast
qed

text \<open>
  The complete project has notebooks with an empty list of cells and passes; a second
  notebook that is not JSON, or that has no \<open>cells\<close> key, makes the checker fail.
\<close>

theorem notebook_checker_spec_witness:
  \<open>fst (validate_notebooks demo_loads (world_of complete_project)) = Inr True
   \<and> notebook_step demo_loads ''notebooks/02_data_cleaning.ipynb'' (world_of complete_project) =
       (None, py_print (NbValid ''notebooks/02_data_cleaning.ipynb'' 0) (world_of complete_project))
   \<and> fst (validate_notebooks demo_loads
        (world_of (with_second_notebook (Some (Reg (Inr ''{not json'')))))) = Inr False
   \<and> fst (validate_notebooks demo_loads
        (world_of (with_second_notebook (Some (Reg (Inr ''{"metadata": {}}'')))))) = Inr False\<close>
proof -
  let ?nb = "''notebooks/02_data_cleaning.ipynb''"
  let ?w = "world_of complete_project"
  let ?bad = \<open>world_of (with_second_notebook (Some (Reg (Inr ''{not json''))))\<close>
  let ?nocells = \<open>world_of (with_second_notebook (Some (Reg (Inr ''{"metadata": {}}''))))\<close>
  have mem: "?nb \<in> set notebooks"
    by (simp add: notebooks_def)
  have ok: "list_all (notebook_ok demo_loads ?w) notebooks"
    by code_simp
  have load: "json_load demo_loads ?w ?nb = Inr (JObj [(''cells'', JArr [])])"
    by code_simp
  have cells: "map_of [(''cells'', JArr [])] ''cells'' = Some (JArr [])"
    by simp
  have bad1: \<open>read_text ?bad ?nb = Inr ''{not json''\<close>
    by code_simp
  have bad2: \<open>demo_loads ''{not json'' = Inl JSONDecodeError\<close>
    by code_simp
  have nocells1: "json_load demo_loads ?nocells ?nb = Inr (JObj [(''metadata'', JObj [])])"
    by code_simp
  have nocells2: "py_in ''cells'' (JObj [(''metadata'', JObj [])]) = Inr False"
    by simp
  have a: "fst (validate_notebooks demo_loads ?w) = Inr True"
    using notebook_checker_spec [of demo_loads ?w] ok by simp
  have b: "notebook_step demo_loads ?nb ?w = (None, py_print (NbValid ?nb 0) ?w)"
    using notebook_checker_spec [of demo_loads ?w ?nb _ _ _ "[(''cells'', JArr [])]"] load cells
    by blast
  have c: "fst (validate_notebooks demo_loads ?bad) = Inr False"
    using notebook_checker_spec [of demo_loads ?bad ?nb \<open>''{not json''\<close> JSONDecodeError]
      mem bad1 bad2
    by blast
  have d: "fst (validate_notebooks demo_loads ?nocells) = Inr False"
    using notebook_checker_spec [of demo_loads ?nocells ?nb _ _ "JObj [(''metadata'', JObj [])]"]
      mem nocells1 nocells2
    by blast
  from a b c d show ?thesis
    by blast
qed

subsection \<open>C4: the pipeline layout checker\<close>

text \<open>
  Claim C4. The pipeline layout checker returns True on every directory tree. It prints one
  line for each of the three layer READMEs and one for the models README, found or missing,
  and whatever is put at or removed from these four paths, the exit status of the whole run
  stays the same.
\<close>

theorem pipeline_checker_always_true:
  "fst (validate_data_pipeline w) = Inr True
   \<and> stdout (snd (validate_data_pipeline w)) =
       stdout w @ HdrPipeline
         # map (\<lambda>(layer, expected_files).
                  if os_path_isfile w (''data/'' @ layer @ ''/README.md'')
                  then LayerDocOk layer else LayerDocMissing layer) expected_data_flow
         @ [if os_path_isfile w ''models/README.md'' then ModelsDocOk else ModelsDocMissing]
   \<and> (\<forall>p \<in> set pipeline_readmes. \<forall>n.
         exit_status loads (w\<lparr>files := (files w)(p := n)\<rparr>) = exit_status loads w)"
proof -
  have unaffected: "exit_status loads (w\<lparr>files := (files w)(p := n)\<rparr>) = exit_status loads w"
    if "p \<in> set pipeline_readmes" for p n
  proof -
    from that have "p = ''data/raw/README.md'' \<or> p = ''data/stage/README.md''
        \<or> p = ''data/processed/README.md'' \<or> p = ''models/README.md''"
      by (auto simp: pipeline_readmes_def expected_data_flow_def)
    then have "all_ok loads (w\<lparr>files := (files w)(p := n)\<rparr>) = all_ok loads w"
      by (elim disjE)
        (simp_all add: all_ok_unfold required_dirs_def required_files_def notebooks_def
          os_path_isdir_def os_path_isfile_def notebook_ok_def json_load_def read_text_def
          readable_def)
    then show ?thesis
      by (simp add: exit_status_all_ok)
  qed
  show ?thesis
    using unaffected by (simp add: pipeline_closed)
qed

text \<open>
  The complete project has none of the four READMEs: all four are reported missing, the
  checker returns True and the run exits with 0, as it does once a README is added.
\<close>

theorem pipeline_checker_always_true_witness:
  "''data/raw/README.md'' \<in> set pipeline_readmes
   \<and> fst (validate_data_pipeline (world_of complete_project)) = Inr True
   \<and> stdout (snd (validate_data_pipeline (world_of complete_project))) =
       [HdrPipeline, LayerDocMissing ''raw'', LayerDocMissing ''stage'',
        LayerDocMissing ''processed'', ModelsDocMissing]
   \<and> exit_status demo_loads (world_of complete_project) = 0
   \<and> exit_status demo_loads
        (world_of complete_project
           \<lparr>files := (files (world_of complete_project))
              (''data/raw/README.md'' := Some (Reg (Inr ''raw data'')))\<rparr>) = 0"
proof -
  let ?w = "world_of complete_project"
  note spec = pipeline_checker_always_true [of ?w demo_loads]
  have mem: "''data/raw/README.md'' \<in> set pipeline_readmes"
    by code_simp
  have out: "stdout (snd (validate_data_pipeline ?w)) =
       [HdrPipeline, LayerDocMissing ''raw'', LayerDocMissing ''stage'',
        LayerDocMissing ''processed'', ModelsDocMissing]"
    by code_simp
  have zero: "exit_status demo_loads ?w = 0"
    by code_simp
  have "fst (validate_data_pipeline ?w) = Inr True"
    using spec by blast
  moreover have "exit_status demo_loads
        (?w\<lparr>files := (files ?w)(''data/raw/README.md'' := Some (Reg (Inr ''raw data'')))\<rparr>)
      = exit_status demo_loads ?w"
    using spec mem by blast
  ultimately show ?thesis
    using mem out zero by simp
qed

subsection \<open>C5: the requirements checker\<close>

text \<open>
  Claim C5. When \<open>requirements.txt\<close> is readable with text \<open>t\<close>, the requirements checker
  returns True if and only if each of the eight package names occurs in \<open>t\<close> as a
  case-insensitive substring. Otherwise it stops at the first package, in the order of the
  list, that does not occur: the console shows the packages found before it and that one
  package as missing, and no later package.
\<close>

theorem requirements_checker_spec:
  assumes "read_text w ''requirements.txt'' = Inr t"
  shows "fst (validate_requirements w) = Inr (list_all (\<lambda>p. ci_substring p t) essential_packages)
   \<and> validate_requirements w =
       (case find (\<lambda>p. \<not> ci_substring p t) essential_packages of
          None \<Rightarrow> (Inr True, emit (HdrRequirements # map PkgOk essential_packages) w)
        | Some p \<Rightarrow>
            (Inr False,
             emit (HdrRequirements
                   # map PkgOk (takeWhile (\<lambda>p. ci_substring p t) essential_packages)
                   @ [PkgMissing p]) w))"
proof -
  have all: "list_all (\<lambda>p. str_in p (lower t)) essential_packages
      = list_all (\<lambda>p. ci_substring p t) essential_packages"
    by (rule list_all_cong_set) (rule essential_ci)
  have fnd: "find (\<lambda>p. \<not> str_in p (lower t)) essential_packages
      = find (\<lambda>p. \<not> ci_substring p t) essential_packages"
    by (rule find_cong_set) (simp add: essential_ci)
  have tw: "takeWhile (\<lambda>p. str_in p (lower t)) essential_packages
      = takeWhile (\<lambda>p. ci_substring p t) essential_packages"
    by (rule takeWhile_cong_set) (rule essential_ci)
  have verdict: "fst (validate_requirements w)
      = Inr (list_all (\<lambda>p. ci_substring p t) essential_packages)"
    using assms all by (simp add: requirements_fst)
  have "validate_requirements w =
       (case find (\<lambda>p. \<not> str_in p (lower t)) essential_packages of
          None \<Rightarrow> (Inr True, emit (HdrRequirements # map PkgOk essential_packages) w)
        | Some p \<Rightarrow>
            (Inr False,
             emit (HdrRequirements
                   # map PkgOk (takeWhile (\<lambda>p. str_in p (lower t)) essential_packages)
                   @ [PkgMissing p]) w))"
    using assms requirements_closed [of w] by simp
  then have run: "validate_requirements w =
       (case find (\<lambda>p. \<not> ci_substring p t) essential_packages of
          None \<Rightarrow> (Inr True, emit (HdrRequirements # map PkgOk essential_packages) w)
        | Some p \<Rightarrow>
            (Inr False,
             emit (HdrRequirements
                   # map PkgOk (takeWhile (\<lambda>p. ci_substring p t) essential_packages)
                   @ [PkgMissing p]) w))"
    unfolding fnd tw .
  from verdict run show ?thesis
    by (rule conjI)
qed

text \<open>
  A manifest without tensorflow, matplotlib, faker and jupyter makes the checker fail; only
  tensorflow is reported missing. The manifest of the complete project, which capitalises
  two names, has all eight.
\<close>

theorem requirements_checker_spec_witness:
  "read_text (world_of no_tensorflow_project) ''requirements.txt'' = Inr no_tensorflow_requirements
   \<and> fst (validate_requirements (world_of no_tensorflow_project)) = Inr False
   \<and> stdout (snd (validate_requirements (world_of no_tensorflow_project))) =
       [HdrRequirements, PkgOk ''pandas'', PkgOk ''numpy'', PkgMissing ''tensorflow'']
   \<and> \<not> list_all (\<lambda>p. ci_substring p no_tensorflow_requirements) essential_packages
   \<and> read_text (world_of complete_project) ''requirements.txt'' = Inr demo_requirements
   \<and> list_all (\<lambda>p. ci_substring p demo_requirements) essential_packages"
proof -
  have r: "read_text (world_of no_tensorflow_project) ''requirements.txt''
      = Inr no_tensorflow_requirements"
    by code_simp
  have v: "fst (validate_requirements (world_of no_tensorflow_project)) = Inr False"
    by code_simp
  have o: "stdout (snd (validate_requirements (world_of no_tensorflow_project))) =
       [HdrRequirements, PkgOk ''pandas'', PkgOk ''numpy'', PkgMissing ''tensorflow'']"
    by code_simp
  have n: "\<not> list_all (\<lambda>p. ci_substring p no_tensorflow_requirements) essential_packages"
    using requirements_checker_spec [OF r] v by simp
  have r': "read_text (world_of complete_project) ''requirements.txt'' = Inr demo_requirements"
    by code_simp
  have v': "fst (validate_requirements (world_of complete_project)) = Inr True"
    by code_simp
  have y: "list_all (\<lambda>p. ci_substring p demo_requirements) essential_packages"
    using requirements_checker_spec [OF r'] v' by simp
  show ?thesis
    using r v o n r' y by simp
qed

subsection \<open>C6: the ignore-pattern checker\<close>

text \<open>
  Claim C6 speaks of five fixed pattern strings. The list of the source has six: on a
  readable but empty \<open>.gitignore\<close> the checker prints six warning lines, and returns True.
\<close>

theorem gitignore_six_patterns_counterexample:
  "length essential_patterns = 6
   \<and> fst (validate_gitignore (world_of (with_gitignore (Reg (Inr ''''))))) = Inr True
   \<and> stdout (snd (validate_gitignore (world_of (with_gitignore (Reg (Inr '''')))))) =
       [HdrGitignore, PatWarn ''__pycache__'', PatWarn ''*.pyc'', PatWarn ''.ipynb_checkpoints'',
        PatWarn ''data/raw/*.csv'', PatWarn ''models/'', PatWarn ''.env'']"
  by code_simp

text \<open>
  Claim C6, amended. There are six fixed patterns. The ignore-pattern checker returns True
  if and only if \<open>.gitignore\<close> can be read, and False exactly when reading it fails; then it
  prints the read-error line. When the file is readable it prints, for each of the six
  patterns, a found line if the pattern is a substring of the text, character for character,
  and a warning line if not, and still returns True.
\<close>

theorem gitignore_checker_six_patterns:
  "length essential_patterns = 6
   \<and> (fst (validate_gitignore w) = Inr True) = readable w ''.gitignore''
   \<and> (fst (validate_gitignore w) = Inr False) = (\<not> readable w ''.gitignore'')
   \<and> validate_gitignore w =
       (case read_text w ''.gitignore'' of
          Inl e \<Rightarrow> (Inr False, emit [HdrGitignore, GitignoreReadError e] w)
        | Inr gitignore \<Rightarrow>
            (Inr True,
             emit (HdrGitignore
                   # map (\<lambda>p. if sublist p gitignore then PatOk p else PatWarn p)
                       essential_patterns) w))"
proof -
  have "length essential_patterns = 6"
    by (simp add: essential_patterns_def)
  moreover have "(fst (validate_gitignore w) = Inr True) = readable w ''.gitignore''"
    by (simp add: gitignore_fst)
  moreover have "(fst (validate_gitignore w) = Inr False) = (\<not> readable w ''.gitignore'')"
    by (simp add: gitignore_fst)
  moreover have "validate_gitignore w =
       (case read_text w ''.gitignore'' of
          Inl e \<Rightarrow> (Inr False, emit [HdrGitignore, GitignoreReadError e] w)
        | Inr gitignore \<Rightarrow>
            (Inr True,
             emit (HdrGitignore
                   # map (\<lambda>p. if sublist p gitignore then PatOk p else PatWarn p)
                       essential_patterns) w))"
    using gitignore_closed [of w] unfolding str_in_def .
  ultimately show ?thesis
    by blast
qed

text \<open>
  An ignore file that has \<open>__PYCACHE__\<close> in capitals and lacks three more patterns gives four
  warnings and the result True; an ignore file that may not be read gives False.
\<close>

theorem gitignore_checker_six_patterns_witness:
  "readable (world_of (with_gitignore (Reg (Inr shouting_gitignore)))) ''.gitignore''
   \<and> fst (validate_gitignore (world_of (with_gitignore (Reg (Inr shouting_gitignore))))) = Inr True
   \<and> stdout (snd (validate_gitignore (world_of (with_gitignore (Reg (Inr shouting_gitignore)))))) =
       [HdrGitignore, PatWarn ''__pycache__'', PatOk ''*.pyc'', PatWarn ''.ipynb_checkpoints'',
        PatWarn ''data/raw/*.csv'', PatWarn ''models/'', PatOk ''.env'']
   \<and> \<not> readable (world_of (with_gitignore (Reg (Inl PermissionError)))) ''.gitignore''
   \<and> fst (validate_gitignore (world_of (with_gitignore (Reg (Inl PermissionError))))) = Inr False"
proof -
  let ?w = "world_of (with_gitignore (Reg (Inr shouting_gitignore)))"
  let ?denied = "world_of (with_gitignore (Reg (Inl PermissionError)))"
  have r: "readable ?w ''.gitignore''"
    by code_simp
  have out: "stdout (snd (validate_gitignore ?w)) =
       [HdrGitignore, PatWarn ''__pycache__'', PatOk ''*.pyc'', PatWarn ''.ipynb_checkpoints'',
        PatWarn ''data/raw/*.csv'', PatWarn ''models/'', PatOk ''.env'']"
    by code_simp
  have d: "\<not> readable ?denied ''.gitignore''"
    by code_simp
  have "fst (validate_gitignore ?w) = Inr True"
    using gitignore_checker_six_patterns [of ?w] r by blast
  moreover have "fst (validate_gitignore ?denied) = Inr False"
    using gitignore_checker_six_patterns [of ?denied] d by blast
  ultimately show ?thesis
    using r out d by simp
qed

subsection \<open>C7: no exception escapes\<close>




subsection \<open>C8: the directory tree is only read\<close>

text \<open>
  Claim C8. Each of the five checkers and the whole run leave the directory tree as it was:
  the world that they return has the files of the world that they were given, and only the
  console has grown.
\<close>

theorem validator_reads_only:
  "files (snd (validate_project_structure w)) = files w
   \<and> files (snd (validate_notebooks loads w)) = files w
   \<and> files (snd (validate_data_pipeline w)) = files w
   \<and> files (snd (validate_requirements w)) = files w
   \<and> files (snd (validate_gitignore w)) = files w
   \<and> files (snd (main loads w)) = files w"
  using main_closed [of loads w]
  by (auto simp: structure_files notebooks_files pipeline_files requirements_files gitignore_files)

text \<open>
  The complete project and the empty directory after a run.
\<close>

theorem validator_reads_only_witness:
  "files (snd (main demo_loads (world_of complete_project))) = complete_project
   \<and> files (snd (main demo_loads (world_of bare_project))) = bare_project"
  using validator_reads_only [of "world_of complete_project" demo_loads]
    validator_reads_only [of "world_of bare_project" demo_loads]
  by (simp add: world_of_def)

subsection \<open>C9: a package name inside a longer word\<close>

text \<open>
  Claim C9. When the lower-cased text of a token contains a package name, the test for that
  package succeeds on every manifest that contains the token, whatever stands before and
  after it. A manifest in which numpy occurs only in the line \<open>numpydoc\<close> and tensorflow only
  in a comment line passes the checker, and every package is reported as found.
\<close>

theorem requirements_substring_match:
  "(str_in package (lower token) \<longrightarrow>
      check_packages (pre @ token @ post) (package # rest) w =
        check_packages (pre @ token @ post) rest (py_print (PkgOk package) w))
   \<and> ''numpy'' \<notin> set numpydoc_lines \<and> ''numpydoc'' \<in> set numpydoc_lines
   \<and> ''tensorflow'' \<notin> set numpydoc_lines
   \<and> ''# tensorflow is installed separately'' \<in> set numpydoc_lines
   \<and> read_text (world_of numpydoc_project) ''requirements.txt'' = Inr numpydoc_requirements
   \<and> fst (validate_requirements (world_of numpydoc_project)) = Inr True
   \<and> stdout (snd (validate_requirements (world_of numpydoc_project))) =
       HdrRequirements # map PkgOk essential_packages"
proof -
  have general: "check_packages (pre @ token @ post) (package # rest) w =
        check_packages (pre @ token @ post) rest (py_print (PkgOk package) w)"
    if "str_in package (lower token)"
  proof -
    have "sublist (lower token) (lower (pre @ token @ post))"
      by (rule sublist_map_lower) simp
    with that have "str_in package (lower (pre @ token @ post))"
      unfolding str_in_def by (rule sublist_order.order_trans)
    then show ?thesis
      by simp
  qed
  have lines: "''numpy'' \<notin> set numpydoc_lines \<and> ''numpydoc'' \<in> set numpydoc_lines
      \<and> ''tensorflow'' \<notin> set numpydoc_lines
      \<and> ''# tensorflow is installed separately'' \<in> set numpydoc_lines"
    by (simp add: numpydoc_lines_def)
  have rd: "read_text (world_of numpydoc_project) ''requirements.txt'' = Inr numpydoc_requirements"
    by code_simp
  have run: "fst (validate_requirements (world_of numpydoc_project)) = Inr True"
    by code_simp
  have out: "stdout (snd (validate_requirements (world_of numpydoc_project))) =
       HdrRequirements # map PkgOk essential_packages"
    by code_simp
  from general lines rd run out show ?thesis
    by blast
qed

text \<open>
  The token \<open>numpydoc\<close> satisfies the test for numpy.
\<close>

theorem requirements_substring_match_witness:
  "str_in ''numpy'' (lower ''numpydoc'')
   \<and> check_packages (''pandas\<newline>'' @ ''numpydoc'' @ ''\<newline>'') [''numpy''] \<lparr>files = Map.empty, stdout = []\<rparr>
       = (None, \<lparr>files = Map.empty, stdout = [PkgOk ''numpy'']\<rparr>)"
proof -
  have h: "str_in ''numpy'' (lower ''numpydoc'')"
    by code_simp
  show ?thesis
    using requirements_substring_match
      [of "''numpy''" "''numpydoc''" "''pandas\<newline>''" "''\<newline>''" "[]"
          "\<lparr>files = Map.empty, stdout = []\<rparr>"] h
    by (simp add: py_print_def)
qed

subsection \<open>C10: the catch-all handler of the notebook checker\<close>

text \<open>
  Claim C10 says that a notebook whose top-level value is not an object with a list-valued
  \<open>cells\<close> entry makes the notebook checker return False. That is false: when each notebook
  holds \<open>{"cells": "abc"}\<close>, the \<open>cells\<close> entry is a string, \<open>len\<close> gives 3 and the checker
  returns True.
\<close>

theorem notebook_string_cells_counterexample:
  \<open>json_load demo_loads (world_of (with_notebooks ''{"cells": "abc"}''))
       ''notebooks/01_data_ingestion.ipynb'' = Inr (JObj [(''cells'', JStr ''abc'')])
   \<and> \<not> list_valued_cells (JObj [(''cells'', JStr ''abc'')])
   \<and> fst (validate_notebooks demo_loads (world_of (with_notebooks ''{"cells": "abc"}''))) = Inr True\<close>
  by code_simp

text \<open>
  Claim C10, amended. The notebook checker never raises. It returns False when one of the
  four notebooks is missing or cannot be read, when its parsed value is not a dict (a list,
  a string, a number, a boolean or null, whether or not \<open>cells\<close> occurs in it), and when it
  is a dict whose \<open>cells\<close> entry has no length (a number, a boolean or null). It returns True
  when each notebook is a dict whose \<open>cells\<close> entry has a length, which a string and a dict
  have as well as a list.
\<close>

theorem notebook_checker_catch_all:
  "(\<exists>b. fst (validate_notebooks loads w) = Inr b)
   \<and> (notebook \<in> set notebooks \<and> read_text w notebook = Inl e \<longrightarrow>
        fst (validate_notebooks loads w) = Inr False)
   \<and> (notebook \<in> set notebooks \<and> json_load loads w notebook = Inr content
        \<and> content \<notin> range JObj \<longrightarrow>
        fst (validate_notebooks loads w) = Inr False)
   \<and> (notebook \<in> set notebooks \<and> json_load loads w notebook = Inr (JObj kvs)
        \<and> map_of kvs ''cells'' = Some cells \<and> py_len cells = Inl e' \<longrightarrow>
        fst (validate_notebooks loads w) = Inr False)
   \<and> ((\<forall>nb \<in> set notebooks. \<exists>items cells n.
          json_load loads w nb = Inr (JObj items) \<and> map_of items ''cells'' = Some cells
          \<and> py_len cells = Inr n) \<longrightarrow>
        fst (validate_notebooks loads w) = Inr True)"
proof -
  have unreadable: "fst (validate_notebooks loads w) = Inr False"
    if "notebook \<in> set notebooks" and "read_text w notebook = Inl e"
  proof -
    from that(2) have "\<not> notebook_ok loads w notebook"
      by (simp add: notebook_ok_def json_load_def)
    with that(1) show ?thesis
      by (rule notebook_fails)
  qed
  have not_object: "fst (validate_notebooks loads w) = Inr False"
    if "notebook \<in> set notebooks" and "json_load loads w notebook = Inr content"
      and "content \<notin> range JObj"
  proof -
    from that(2,3) have "\<not> notebook_ok loads w notebook"
      by (cases content) (auto simp: notebook_ok_def notebook_count_def)
    with that(1) show ?thesis
      by (rule notebook_fails)
  qed
  have no_length: "fst (validate_notebooks loads w) = Inr False"
    if "notebook \<in> set notebooks" and "json_load loads w notebook = Inr (JObj kvs)"
      and "map_of kvs ''cells'' = Some cells" and "py_len cells = Inl e'"
  proof -
    from that(2,3,4) have "fst (notebook_step loads notebook w) = Some False"
      by (simp add: notebook_step_object)
    then have "\<not> notebook_ok loads w notebook"
      by (simp add: notebook_ok_step)
    with that(1) show ?thesis
      by (rule notebook_fails)
  qed
  have sized: "fst (validate_notebooks loads w) = Inr True"
    if all: "\<forall>nb \<in> set notebooks. \<exists>items cells n.
          json_load loads w nb = Inr (JObj items) \<and> map_of items ''cells'' = Some cells
          \<and> py_len cells = Inr n"
  proof -
    have "notebook_ok loads w nb" if "nb \<in> set notebooks" for nb
    proof -
      from all that obtain items cells n where
        "json_load loads w nb = Inr (JObj items)" "map_of items ''cells'' = Some cells"
        "py_len cells = Inr n"
        by blast
      then have "fst (notebook_step loads nb w) = None"
        by (simp add: notebook_step_object)
      then show ?thesis
        by (simp add: notebook_ok_step)
    qed
    then show ?thesis
      by (simp add: notebooks_fst list_all_iff)
  qed
  have total: "\<exists>b. fst (validate_notebooks loads w) = Inr b"
    by (simp add: notebooks_fst)
  show ?thesis
    using total unreadable not_object no_length sized by blast
qed

text \<open>
  A second notebook that is missing, unreadable, the array \<open>["cells"]\<close>, the string
  \<open>"cells"\<close> or the object \<open>{"cells": 5}\<close> makes the checker fail; four notebooks
  \<open>{"cells": "abc"}\<close> pass.
\<close>

theorem notebook_checker_catch_all_witness:
  \<open>fst (validate_notebooks demo_loads (world_of (with_second_notebook None))) = Inr False
   \<and> fst (validate_notebooks demo_loads
        (world_of (with_second_notebook (Some (Reg (Inl PermissionError)))))) = Inr False
   \<and> fst (validate_notebooks demo_loads
        (world_of (with_second_notebook (Some (Reg (Inr ''["cells"]'')))))) = Inr False
   \<and> fst (validate_notebooks demo_loads
        (world_of (with_second_notebook (Some (Reg (Inr ''"cells"'')))))) = Inr False
   \<and> fst (validate_notebooks demo_loads
        (world_of (with_second_notebook (Some (Reg (Inr ''{"cells": 5}'')))))) = Inr False
   \<and> fst (validate_notebooks demo_loads (world_of (with_notebooks ''{"cells": "abc"}''))) = Inr True\<close>
proof -
  let ?nb = "''notebooks/02_data_cleaning.ipynb''"
  let ?gone = "world_of (with_second_notebook None)"
  let ?denied = "world_of (with_second_notebook (Some (Reg (Inl PermissionError))))"
  let ?array = \<open>world_of (with_second_notebook (Some (Reg (Inr ''["cells"]''))))\<close>
  let ?string = \<open>world_of (with_second_notebook (Some (Reg (Inr ''"cells"''))))\<close>
  let ?number = \<open>world_of (with_second_notebook (Some (Reg (Inr ''{"cells": 5}''))))\<close>
  let ?abc = \<open>world_of (with_notebooks ''{"cells": "abc"}'')\<close>
  have mem: "?nb \<in> set notebooks"
    by (simp add: notebooks_def)
  have gone: "read_text ?gone ?nb = Inl FileNotFoundError"
    by code_simp
  have denied: "read_text ?denied ?nb = Inl PermissionError"
    by code_simp
  have array: "json_load demo_loads ?array ?nb = Inr (JArr [JStr ''cells''])"
    by code_simp
  have string: "json_load demo_loads ?string ?nb = Inr (JStr ''cells'')"
    by code_simp
  have number: "json_load demo_loads ?number ?nb = Inr (JObj [(''cells'', JInt 5)])"
    by code_simp
  have abc: "\<forall>nb \<in> set notebooks. \<exists>items cells n.
      json_load demo_loads ?abc nb = Inr (JObj items) \<and> map_of items ''cells'' = Some cells
      \<and> py_len cells = Inr n"
  proof
    fix nb
    assume "nb \<in> set notebooks"
    moreover have "list_all (\<lambda>nb. json_load demo_loads ?abc nb = Inr (JObj [(''cells'', JStr ''abc'')]))
        notebooks"
      by code_simp
    ultimately have "json_load demo_loads ?abc nb = Inr (JObj [(''cells'', JStr ''abc'')])"
      by (simp add: list_all_iff)
    then show "\<exists>items cells n.
      json_load demo_loads ?abc nb = Inr (JObj items) \<and> map_of items ''cells'' = Some cells
      \<and> py_len cells = Inr n"
      by simp
  qed
  have a: "fst (validate_notebooks demo_loads ?gone) = Inr False"
    using notebook_checker_catch_all [of demo_loads ?gone ?nb FileNotFoundError] mem gone
    by blast
  have b: "fst (validate_notebooks demo_loads ?denied) = Inr False"
    using notebook_checker_catch_all [of demo_loads ?denied ?nb PermissionError] mem denied
    by blast
  have c: "fst (validate_notebooks demo_loads ?array) = Inr False"
    using notebook_checker_catch_all [of demo_loads ?array ?nb _ "JArr [JStr ''cells'']"]
      mem array
    by blast
  have d: "fst (validate_notebooks demo_loads ?string) = Inr False"
    using notebook_checker_catch_all [of demo_loads ?string ?nb _ "JStr ''cells''"] mem string
    by blast
  have e: "fst (validate_notebooks demo_loads ?number) = Inr False"
    using notebook_checker_catch_all
      [of demo_loads ?number ?nb _ _ "[(''cells'', JInt 5)]" "JInt 5" TypeError]
      mem number
    by simp
  have f: "fst (validate_notebooks demo_loads ?abc) = Inr True"
    using notebook_checker_catch_all [of demo_loads ?abc] abc
    by blast
  from a b c d e f show ?thesis
    by blast
qed

end
